theory Spec2Isabelle
  imports Complex_Main
begin

section \<open>Vectors\<close>

text \<open>
  The tool computes with \<open>mathutils.Vector\<close> values of three components. Components are
  modelled as reals, and the definitions of this and the following sections are the
  arithmetic the source writes, without rounding; the section on rounding gives the functions
  for which all inputs are considered a second time, with every rounding step written out.
\<close>

datatype Vector = Vector (vx: real) (vy: real) (vz: real)

instantiation Vector :: ab_group_add
begin

definition zero_Vector :: Vector where
  "zero_Vector = Vector 0 0 0"

definition plus_Vector :: "Vector \<Rightarrow> Vector \<Rightarrow> Vector" where
  "plus_Vector a b = Vector (vx a + vx b) (vy a + vy b) (vz a + vz b)"

definition minus_Vector :: "Vector \<Rightarrow> Vector \<Rightarrow> Vector" where
  "minus_Vector a b = Vector (vx a - vx b) (vy a - vy b) (vz a - vz b)"

definition uminus_Vector :: "Vector \<Rightarrow> Vector" where
  "uminus_Vector a = Vector (- vx a) (- vy a) (- vz a)"

instance
  by standard
    (simp_all add: zero_Vector_def plus_Vector_def minus_Vector_def uminus_Vector_def
      Vector.expand)

end

text \<open>\<open>v * k\<close> and \<open>v / k\<close> for a scalar \<open>k\<close>; \<open>a.dot(b)\<close>; \<open>a.cross(b)\<close>.\<close>

definition smul :: "Vector \<Rightarrow> real \<Rightarrow> Vector" where
  "smul v k = Vector (vx v * k) (vy v * k) (vz v * k)"

definition vdiv :: "Vector \<Rightarrow> real \<Rightarrow> Vector" where
  "vdiv v k = Vector (vx v / k) (vy v / k) (vz v / k)"

definition dot :: "Vector \<Rightarrow> Vector \<Rightarrow> real" where
  "dot a b = vx a * vx b + vy a * vy b + vz a * vz b"

definition cross :: "Vector \<Rightarrow> Vector \<Rightarrow> Vector" where
  "cross a b = Vector (vy a * vz b - vz a * vy b)
                      (vz a * vx b - vx a * vz b)
                      (vx a * vy b - vy a * vx b)"

definition magnitude :: "Vector \<Rightarrow> real" where
  "magnitude v = sqrt (dot v v)"

text \<open>
  \<open>v.normalized()\<close>: the library returns the zero vector when the squared length is at most
  \<open>1e-35\<close> and multiplies by the inverse of the length otherwise.
\<close>

definition normalized :: "Vector \<Rightarrow> Vector" where
  "normalized v = (if dot v v \<le> 1 / 10 ^ 35 then Vector 0 0 0 else vdiv v (magnitude v))"

section \<open>Errors\<close>

datatype py_error = ZeroDivisionError | IndexError | TypeError | ValueError

section \<open>Grid math\<close>

text \<open>
  \<open>get_grid_pos\<close>. The two \<open>if\<close> statements re-sign the basis vectors against
  \<open>position.normalized()\<close>; the divisions raise \<open>ZeroDivisionError\<close> on a zero divisor.
\<close>

definition get_grid_pos ::
  "Vector \<Rightarrow> Vector \<Rightarrow> Vector \<Rightarrow> Vector \<Rightarrow> real \<Rightarrow> real \<Rightarrow> real
    \<Rightarrow> py_error + (Vector \<times> Vector \<times> Vector)" where
  "get_grid_pos position grid_center right_vector0 up_vector0 world_pixels grid_x grid_y =
    (let position_vector = position - grid_center;
         pos_vector_normalized = normalized position;
         right_vector1 = (if dot right_vector0 pos_vector_normalized < 0
                          then smul right_vector0 (- 1) else right_vector0);
         up_vector1 = (if dot up_vector0 pos_vector_normalized < 0
                       then smul up_vector0 (- 1) else up_vector0);
         x_magnitude = dot position_vector right_vector1;
         y_magnitude = dot position_vector up_vector1
     in if world_pixels = 0 then Inl ZeroDivisionError
        else
          let x_unit = grid_x / world_pixels;
              y_unit = grid_y / world_pixels
          in if x_unit = 0 \<or> y_unit = 0 then Inl ZeroDivisionError
             else
               let x_snap = \<lfloor>x_magnitude / x_unit\<rfloor>;
                   y_snap = \<lfloor>y_magnitude / y_unit\<rfloor>;
                   right_vector2 = smul right_vector1 x_unit;
                   up_vector2 = smul up_vector1 y_unit;
                   grid_pos = grid_center + smul right_vector2 (of_int x_snap)
                                          + smul up_vector2 (of_int y_snap)
               in Inr (grid_pos, right_vector2, up_vector2))"

section \<open>Axis snapper\<close>

text \<open>
  \<open>snap_vector_to_axis\<close> selects the axis with \<open>closest is dot_array[i]\<close>, an identity test on
  float objects. The three entries of \<open>dot_array\<close> are three distinct objects, so each is
  modelled as a pair of its identity (its position of creation) and its value. \<open>min\<close> scans
  from the left and replaces its candidate only by a strictly smaller entry; \<open>py_is\<close> is the
  identity test.
\<close>

type_synonym float_obj = "nat \<times> real"

fun py_min_from :: "float_obj \<Rightarrow> float_obj list \<Rightarrow> float_obj" where
  "py_min_from best [] = best"
| "py_min_from best (item # items) =
     (if snd item < snd best then py_min_from item items else py_min_from best items)"

definition py_is :: "float_obj \<Rightarrow> float_obj \<Rightarrow> bool" where
  "py_is a b = (fst a = fst b)"

definition snap_vector_to_axis :: "Vector \<Rightarrow> bool \<Rightarrow> Vector" where
  "snap_vector_to_axis vector mirrored =
    (let norm_vector = normalized vector;
         x = Vector 1 0 0;
         y = Vector 0 1 0;
         z = Vector 0 0 1;
         x_dot = (0, 1 - \<bar>dot norm_vector x\<bar>);
         y_dot = (1, 1 - \<bar>dot norm_vector y\<bar>);
         z_dot = (2, 1 - \<bar>dot norm_vector z\<bar>);
         dot_array = [x_dot, y_dot, z_dot];
         closest = py_min_from (hd dot_array) (tl dot_array);
         snapped_vector = (if py_is closest (dot_array ! 0) then x
                           else if py_is closest (dot_array ! 1) then y
                           else z);
         vector_dot = dot norm_vector snapped_vector
     in if \<not> mirrored \<and> vector_dot < 0 then smul snapped_vector (- 1)
        else if mirrored \<and> vector_dot > 0 then smul snapped_vector (- 1)
        else snapped_vector)"

section \<open>Rounding\<close>

text \<open>
  The components of a \<open>Vector\<close> are single-precision numbers and Python's floats are
  double-precision numbers, so every arithmetic result is rounded where it is stored. The
  definitions above compute without rounding; they are what the program computes whenever no
  result is rounded. The two functions for which a statement about all inputs is made are
  given a second time with the rounding written out. An \<open>Arith\<close> holds the rounding to single
  precision, the rounding to double precision and the library's \<open>normalized()\<close>; nothing is
  assumed about them here.
\<close>

record Arith =
  f32 :: "real \<Rightarrow> real"
  f64 :: "real \<Rightarrow> real"
  lib_normalized :: "Vector \<Rightarrow> Vector"

text \<open>The arithmetic that rounds nothing.\<close>

definition exact_arith :: Arith where
  "exact_arith = \<lparr>f32 = (\<lambda>x. x), f64 = (\<lambda>x. x), lib_normalized = normalized\<rparr>"

text \<open>
  Each operation returns its rounded result together with the flag that the result differs
  from the exact one. \<open>Vector - Vector\<close> and \<open>Vector + Vector\<close> round each component to
  single precision. \<open>Vector * scalar\<close> converts the scalar (a Python float or integer) to
  single precision and rounds each product. \<open>a.dot(b)\<close> rounds each product to single
  precision and adds the products to a double-precision sum that starts at zero, from the last
  component to the first. A quotient of Python floats is rounded to double precision.
\<close>

definition round32 :: "Arith \<Rightarrow> real \<Rightarrow> real \<times> bool" where
  "round32 A x = (f32 A x, f32 A x \<noteq> x)"

definition round64 :: "Arith \<Rightarrow> real \<Rightarrow> real \<times> bool" where
  "round64 A x = (f64 A x, f64 A x \<noteq> x)"

definition vround :: "Arith \<Rightarrow> Vector \<Rightarrow> Vector \<times> bool" where
  "vround A v = (Vector (f32 A (vx v)) (f32 A (vy v)) (f32 A (vz v)),
                 f32 A (vx v) \<noteq> vx v \<or> f32 A (vy v) \<noteq> vy v \<or> f32 A (vz v) \<noteq> vz v)"

definition vsub_fl :: "Arith \<Rightarrow> Vector \<Rightarrow> Vector \<Rightarrow> Vector \<times> bool" where
  "vsub_fl A a b = vround A (a - b)"

definition vadd_fl :: "Arith \<Rightarrow> Vector \<Rightarrow> Vector \<Rightarrow> Vector \<times> bool" where
  "vadd_fl A a b = vround A (a + b)"

definition smul_fl :: "Arith \<Rightarrow> Vector \<Rightarrow> real \<Rightarrow> Vector \<times> bool" where
  "smul_fl A v k =
    (let k32 = round32 A k;
         w = vround A (smul v (fst k32))
     in (fst w, snd k32 \<or> snd w))"

definition dot_fl :: "Arith \<Rightarrow> Vector \<Rightarrow> Vector \<Rightarrow> real \<times> bool" where
  "dot_fl A a b =
    (let pz = round32 A (vz a * vz b);
         py = round32 A (vy a * vy b);
         px = round32 A (vx a * vx b);
         d1 = round64 A (0 + fst pz);
         d2 = round64 A (fst d1 + fst py);
         d3 = round64 A (fst d2 + fst px)
     in (fst d3, snd pz \<or> snd py \<or> snd px \<or> snd d1 \<or> snd d2 \<or> snd d3))"

definition div_fl :: "Arith \<Rightarrow> real \<Rightarrow> real \<Rightarrow> real \<times> bool" where
  "div_fl A a b = round64 A (a / b)"

text \<open>
  \<open>get_grid_pos\<close> with the rounding written out. Beside the three returned vectors it gives
  the flag that one of the operations whose results enter them was rounded; the dot products
  with \<open>pos_vector_normalized\<close> are used for their sign alone and do not count.
\<close>

definition get_grid_pos_fl ::
  "Arith \<Rightarrow> Vector \<Rightarrow> Vector \<Rightarrow> Vector \<Rightarrow> Vector \<Rightarrow> real \<Rightarrow> real \<Rightarrow> real
    \<Rightarrow> py_error + ((Vector \<times> Vector \<times> Vector) \<times> bool)" where
  "get_grid_pos_fl A position grid_center right_vector0 up_vector0 world_pixels grid_x grid_y =
    (let position_vector = vsub_fl A position grid_center;
         pos_vector_normalized = lib_normalized A position;
         right_vector1 = (if fst (dot_fl A right_vector0 pos_vector_normalized) < 0
                          then smul_fl A right_vector0 (- 1) else (right_vector0, False));
         up_vector1 = (if fst (dot_fl A up_vector0 pos_vector_normalized) < 0
                       then smul_fl A up_vector0 (- 1) else (up_vector0, False));
         x_magnitude = dot_fl A (fst position_vector) (fst right_vector1);
         y_magnitude = dot_fl A (fst position_vector) (fst up_vector1)
     in if world_pixels = 0 then Inl ZeroDivisionError
        else
          let x_unit = div_fl A grid_x world_pixels;
              y_unit = div_fl A grid_y world_pixels
          in if fst x_unit = 0 \<or> fst y_unit = 0 then Inl ZeroDivisionError
             else
               let x_quot = div_fl A (fst x_magnitude) (fst x_unit);
                   y_quot = div_fl A (fst y_magnitude) (fst y_unit);
                   x_snap = \<lfloor>fst x_quot\<rfloor>;
                   y_snap = \<lfloor>fst y_quot\<rfloor>;
                   right_vector2 = smul_fl A (fst right_vector1) (fst x_unit);
                   up_vector2 = smul_fl A (fst up_vector1) (fst y_unit);
                   x_step = smul_fl A (fst right_vector2) (of_int x_snap);
                   y_step = smul_fl A (fst up_vector2) (of_int y_snap);
                   sum1 = vadd_fl A grid_center (fst x_step);
                   grid_pos = vadd_fl A (fst sum1) (fst y_step)
               in Inr ((fst grid_pos, fst right_vector2, fst up_vector2),
                       snd position_vector \<or> snd right_vector1 \<or> snd up_vector1 \<or>
                       snd x_magnitude \<or> snd y_magnitude \<or> snd x_unit \<or> snd y_unit \<or>
                       snd x_quot \<or> snd y_quot \<or> snd right_vector2 \<or> snd up_vector2 \<or>
                       snd x_step \<or> snd y_step \<or> snd sum1 \<or> snd grid_pos))"

text \<open>
  \<open>snap_vector_to_axis\<close> with the rounding written out. A dot product with a world axis has
  two products that are zero and is the component itself; each score \<open>1 - abs(...)\<close> is a
  Python float. \<open>axis_score\<close> is that score for a given axis.
\<close>

definition axis_score :: "Arith \<Rightarrow> Vector \<Rightarrow> Vector \<Rightarrow> real" where
  "axis_score A vector axis = f64 A (1 - \<bar>dot (lib_normalized A vector) axis\<bar>)"

definition snap_vector_to_axis_fl :: "Arith \<Rightarrow> Vector \<Rightarrow> bool \<Rightarrow> Vector" where
  "snap_vector_to_axis_fl A vector mirrored =
    (let norm_vector = lib_normalized A vector;
         x = Vector 1 0 0;
         y = Vector 0 1 0;
         z = Vector 0 0 1;
         x_dot = (0, axis_score A vector x);
         y_dot = (1, axis_score A vector y);
         z_dot = (2, axis_score A vector z);
         dot_array = [x_dot, y_dot, z_dot];
         closest = py_min_from (hd dot_array) (tl dot_array);
         snapped_vector = (if py_is closest (dot_array ! 0) then x
                           else if py_is closest (dot_array ! 1) then y
                           else z);
         vector_dot = dot norm_vector snapped_vector
     in if \<not> mirrored \<and> vector_dot < 0 then smul snapped_vector (- 1)
        else if mirrored \<and> vector_dot > 0 then smul snapped_vector (- 1)
        else snapped_vector)"

text \<open>
  What the statements about \<open>snap_vector_to_axis_fl\<close> ask of the arithmetic: a component of
  the normalized vector is zero or has the sign of the component it comes from.
\<close>

definition sign_faithful :: "(Vector \<Rightarrow> Vector) \<Rightarrow> bool" where
  "sign_faithful nrm =
    (\<forall>v. (vx (nrm v) < 0 \<longrightarrow> vx v < 0) \<and> (0 < vx (nrm v) \<longrightarrow> 0 < vx v) \<and>
         (vy (nrm v) < 0 \<longrightarrow> vy v < 0) \<and> (0 < vy (nrm v) \<longrightarrow> 0 < vy v) \<and>
         (vz (nrm v) < 0 \<longrightarrow> vz v < 0) \<and> (0 < vz (nrm v) \<longrightarrow> 0 < vz v))"

section \<open>Host data\<close>

text \<open>
  The host application owns the mesh, the scene and the spatial index. The model keeps the
  parts the tool reads and writes.

  A \<open>BMesh\<close> holds the vertex coordinates, the faces as ordered lists of vertex indices (a
  face's loops are its vertices in that order: loop \<open>i\<close> of face \<open>f\<close> belongs to vertex
  \<open>faces ! f ! i\<close>), one UV coordinate for each loop and one material index for each face.
  \<open>layers.uv.verify()\<close> and \<open>layers.tex.verify()\<close> return the handle of the layer that
  \<open>loop_uv\<close> stands for; whether the layer existed before is outside the model, as are the
  host's redraw notifications (\<open>update_edit_mesh\<close>, \<open>index_update\<close>,
  \<open>ensure_lookup_table\<close>, \<open>normal_update\<close>).
\<close>

record BMesh =
  verts :: "Vector list"
  faces :: "nat list list"
  loop_uv :: "nat \<times> nat \<Rightarrow> real \<times> real"
  material_index :: "nat \<Rightarrow> int"

text \<open>
  \<open>BVHTree.ray_cast\<close> returns location, normal, face index and distance, all of them
  \<open>None\<close> when nothing is hit: the four \<open>None\<close>s are the value \<open>None\<close> here.
\<close>

type_synonym ray_result = "(Vector \<times> Vector \<times> nat \<times> real) option"

type_synonym BVHTree = "Vector \<Rightarrow> Vector \<Rightarrow> ray_result"

text \<open>
  A \<open>mathutils.Matrix\<close> is used only through \<open>matrix * v\<close> and \<open>matrix.inverted()\<close>, which
  raises \<open>ValueError\<close> for a matrix without inverse (\<open>inverted = None\<close>).
\<close>

record Matrix =
  mat_mul :: "Vector \<Rightarrow> Vector"
  inverted :: "(Vector \<Rightarrow> Vector) option"

record Image =
  img_size :: "real \<times> real"

record SprytileGrid =
  grid :: "real \<times> real"
  tile_selection :: "real \<times> real"
  mat_id :: string

record SprytileData =
  world_pixels :: real
  paint_normal_vector :: Vector
  paint_up_vector :: Vector
  cursor_flow :: bool

record Scene =
  cursor_location :: Vector
  sprytile_data :: SprytileData
  sprytile_grids :: "SprytileGrid list"

record Object =
  sprytile_gridid :: int
  matrix_world :: Matrix

text \<open>
  Functions of the host and of \<open>sprytile_utils\<close> that the tool calls and whose code is not
  part of the module: they are parameters of the model.
\<close>

record Host =
  get_grid_texture :: "SprytileGrid \<Rightarrow> Image option"
  FromBMesh :: "BMesh \<Rightarrow> BVHTree"
  materials_find :: "string \<Rightarrow> int"

text \<open>The operator's own fields together with the context it is called in.\<close>

record State =
  bmesh :: BMesh
  tree :: BVHTree
  virtual_cursor :: "Vector list"
  scene :: Scene
  obj :: Object

text \<open>
  \<open>collection[i]\<close> for a Python integer \<open>i\<close>: an index from \<open>-len\<close> up to \<open>-1\<close> addresses
  the collection from its end, an index outside \<open>-len ..< len\<close> raises \<open>IndexError\<close>.
\<close>

definition py_index :: "'a list \<Rightarrow> int \<Rightarrow> py_error + 'a" where
  "py_index xs i =
    (if 0 \<le> i \<and> i < int (length xs) then Inr (xs ! nat i)
     else if i < 0 \<and> - int (length xs) \<le> i then Inr (xs ! nat (i + int (length xs)))
     else Inl IndexError)"

section \<open>Library geometry\<close>

text \<open>
  \<open>intersect_line_plane(line_a, line_b, plane_co, plane_no)\<close>: the point of the line through
  \<open>line_a\<close> and \<open>line_b\<close> on the plane, \<open>None\<close> when the line is parallel to the plane,
  which the library decides by comparing the dot product of normal and direction with
  \<open>FLT_EPSILON\<close>, the distance from \<open>1\<close> to the next single-precision number.
  \<open>distance_point_to_plane(pt, plane_co, plane_no)\<close>: the signed distance; for a normal of
  length zero the library's quotient is not a number, which compares false with everything
  (\<open>None\<close> here).
\<close>

definition FLT_EPSILON :: real where
  "FLT_EPSILON = 1 / 2 ^ 23"

definition intersect_line_plane :: "Vector \<Rightarrow> Vector \<Rightarrow> Vector \<Rightarrow> Vector \<Rightarrow> Vector option" where
  "intersect_line_plane line_a line_b plane_co plane_no =
    (let u = line_b - line_a;
         h = line_a - plane_co;
         d = dot plane_no u
     in if \<bar>d\<bar> > FLT_EPSILON
        then Some (line_a + smul u (- dot plane_no h / d))
        else None)"

definition distance_point_to_plane :: "Vector \<Rightarrow> Vector \<Rightarrow> Vector \<Rightarrow> real option" where
  "distance_point_to_plane pt plane_co plane_no =
    (if magnitude plane_no = 0 then None
     else Some (dot plane_no (pt - plane_co) / magnitude plane_no))"

section \<open>Grid raycast and grid vectors\<close>

definition raycast_grid ::
  "Scene \<Rightarrow> int \<Rightarrow> Vector \<Rightarrow> Vector \<Rightarrow> Vector \<Rightarrow> Vector \<Rightarrow> Vector
    \<Rightarrow> py_error + (Vector \<times> Vector \<times> Vector \<times> Vector) option" where
  "raycast_grid scn grid_id up_vector right_vector plane_normal ray_origin ray_vector =
    (case intersect_line_plane ray_origin (ray_origin + ray_vector)
            (cursor_location scn) plane_normal of
       None \<Rightarrow> Inr None
     | Some plane_pos \<Rightarrow>
        (case py_index (sprytile_grids scn) grid_id of
           Inl e \<Rightarrow> Inl e
         | Inr target_grid \<Rightarrow>
            (case get_grid_pos plane_pos (cursor_location scn) right_vector up_vector
                    (world_pixels (sprytile_data scn))
                    (fst (grid target_grid)) (snd (grid target_grid)) of
               Inl e \<Rightarrow> Inl e
             | Inr (grid_position, x_vector, y_vector) \<Rightarrow>
                 Inr (Some (grid_position, x_vector, y_vector, plane_pos)))))"

definition get_current_grid_vectors :: "Scene \<Rightarrow> Vector \<times> Vector \<times> Vector" where
  "get_current_grid_vectors scn =
    (let normal_vector = normalized (paint_normal_vector (sprytile_data scn));
         up_vector = normalized (paint_up_vector (sprytile_data scn));
         right_vector = cross up_vector normal_vector
     in (up_vector, right_vector, normal_vector))"

section \<open>UV projection\<close>

text \<open>
  \<open>uv_unit\<close> is the pair \<open>(uv_unit_x, uv_unit_y)\<close> of \<open>uv_map_face\<close>; \<open>uv_project\<close> is the
  body of its loop over the face's loops, up to the assignment to the loop's UV. The
  translation matrix \<open>uv_matrix\<close> adds \<open>(uv_unit_x * tile_xy[0], uv_unit_y * tile_xy[1], 0)\<close>.
\<close>

definition uv_unit :: "Image \<Rightarrow> SprytileGrid \<Rightarrow> real \<times> real" where
  "uv_unit target_img target_grid =
    (let pixel_uv_x = 1 / fst (img_size target_img);
         pixel_uv_y = 1 / snd (img_size target_img)
     in (pixel_uv_x * fst (grid target_grid), pixel_uv_y * snd (grid target_grid)))"

definition uv_project ::
  "Vector \<Rightarrow> Vector \<Rightarrow> real \<times> real \<Rightarrow> real \<times> real \<Rightarrow> real \<times> real \<Rightarrow> Vector \<Rightarrow> Vector
    \<Rightarrow> real \<times> real" where
  "uv_project up_vector right_vector world_convert uvu tile_xy vert_origin vert_co =
    (let vert_pos = vert_co - vert_origin;
         x0 = dot right_vector vert_pos;
         y0 = dot up_vector vert_pos;
         x1 = x0 / fst world_convert;
         y1 = y0 / snd world_convert;
         x2 = x1 + 0.5;
         y2 = y1 + 0.5;
         x3 = x2 * fst uvu;
         y3 = y2 * snd uvu
     in (x3 + fst uvu * fst tile_xy, y3 + snd uvu * snd tile_xy))"

text \<open>\<open>face.calc_center_median()\<close>: the mean of the face's vertex coordinates.\<close>

definition calc_center_median :: "BMesh \<Rightarrow> nat list \<Rightarrow> Vector" where
  "calc_center_median mesh face =
    vdiv (sum_list (map (\<lambda>v. verts mesh ! v) face)) (real (length face))"

text \<open>
  \<open>uv_map_face\<close>, called with the operator's mesh (every call in the module passes
  \<open>mesh\<close>). Face indices come from the spatial index or from \<open>build_face\<close> and are natural
  numbers. A bare \<open>return\<close> is the result \<open>None\<close> beside the unchanged mesh. The divisions raise on a zero divisor: \<open>world_units\<close> before the
  two guards, the image size after them, the components of \<open>world_convert\<close> inside the loop
  (so only for a face that has a loop).
\<close>

definition uv_map_face ::
  "Host \<Rightarrow> Scene \<Rightarrow> Object \<Rightarrow> Vector \<Rightarrow> Vector \<Rightarrow> real \<times> real \<Rightarrow> nat \<Rightarrow> BMesh
    \<Rightarrow> py_error + (BMesh \<times> (nat \<times> SprytileGrid) option)" where
  "uv_map_face host scn ob up_vector right_vector tile_xy face_index mesh =
    (case py_index (sprytile_grids scn) (sprytile_gridid ob) of
       Inl e \<Rightarrow> Inl e
     | Inr target_grid \<Rightarrow>
        (let world_units = world_pixels (sprytile_data scn)
         in if world_units = 0 then Inl ZeroDivisionError
            else
              let world_convert = (fst (grid target_grid) / world_units,
                                   snd (grid target_grid) / world_units)
              in if face_index \<ge> length (faces mesh) then Inr (mesh, None)
                 else
                   (case get_grid_texture host target_grid of
                      None \<Rightarrow> Inr (mesh, None)
                    | Some target_img \<Rightarrow>
                       if fst (img_size target_img) = 0 \<or> snd (img_size target_img) = 0
                       then Inl ZeroDivisionError
                       else
                         let uvu = uv_unit target_img target_grid;
                             face = faces mesh ! face_index;
                             vert_origin = calc_center_median mesh face
                         in if face \<noteq> [] \<and> (fst world_convert = 0 \<or> snd world_convert = 0)
                            then Inl ZeroDivisionError
                            else Inr (fold (\<lambda>(i, v) m.
                                        m\<lparr>loop_uv := (loop_uv m)((face_index, i) :=
                                            uv_project up_vector right_vector world_convert uvu
                                              tile_xy vert_origin (verts mesh ! v))\<rparr>)
                                        (enumerate 0 face) mesh,
                                      Some (face_index, target_grid)))))"

section \<open>Virtual cursor\<close>

text \<open>\<open>deque([], 3)\<close>: appending to a full deque drops its oldest entry.\<close>

definition deque_append :: "Vector list \<Rightarrow> Vector \<Rightarrow> Vector list" where
  "deque_append dq x = (let ys = dq @ [x] in if length ys > 3 then tl ys else ys)"

definition get_virtual_cursor_vector :: "Vector list \<Rightarrow> Vector" where
  "get_virtual_cursor_vector vc =
    (let cursor_direction = Vector 0 0 0;
         cursor_len = length vc
     in if cursor_len \<le> 1 then cursor_direction
        else vdiv (fold (\<lambda>idx cursor_direction.
                      cursor_direction + (vc ! (idx + 1) - vc ! idx))
                    [0 ..< cursor_len - 1] cursor_direction)
                  (real cursor_len))"

definition add_virtual_cursor :: "Vector list \<Rightarrow> Vector \<Rightarrow> Vector list" where
  "add_virtual_cursor vc cursor_pos =
    (let cursor_len = length vc
     in if cursor_len = 0 then deque_append vc cursor_pos
        else
          let last_pos = vc ! (cursor_len - 1);
              last_vector = cursor_pos - last_pos
          in if magnitude last_vector < 0.1 then vc
             else
               let cursor_vector = get_virtual_cursor_vector vc;
                   vc1 = (if dot cursor_vector last_vector < 0 then [] else vc)
               in deque_append vc1 cursor_pos)"

text \<open>
  \<open>flow_cursor\<close>. \<open>flow_step\<close> is the body of its loop over \<open>enumerate(face.verts)\<close>, on the
  pair \<open>(closest_idx, closest_pos)\<close>, and \<open>vert_dot\<close> the score it computes for a vertex
  position in world space; \<open>max_dot\<close> is assigned once, before the loop.
\<close>

definition vert_dot :: "Vector \<Rightarrow> Vector \<Rightarrow> Vector \<Rightarrow> real" where
  "vert_dot vert_world_pos cursor_arg cursor_direction =
    (let vert_vector = normalized (vert_world_pos - cursor_arg)
     in \<bar>1 - dot vert_vector cursor_direction\<bar>)"

definition flow_step ::
  "Matrix \<Rightarrow> BMesh \<Rightarrow> Vector \<Rightarrow> Vector \<Rightarrow> real \<Rightarrow> nat \<times> nat \<Rightarrow> int \<times> Vector \<Rightarrow> int \<times> Vector" where
  "flow_step mw mesh cursor_arg cursor_direction max_dot iv closest =
    (let vert_world_pos = mat_mul mw (verts mesh ! snd iv)
     in if vert_dot vert_world_pos cursor_arg cursor_direction < max_dot
        then (int (fst iv), vert_world_pos) else closest)"

definition flow_cursor :: "State \<Rightarrow> nat \<Rightarrow> Vector \<Rightarrow> py_error + State" where
  "flow_cursor st face_index cursor_arg =
    (let cursor_len = length (virtual_cursor st)
     in if cursor_len \<le> 1 then Inr st
        else
          let cursor_direction = normalized (get_virtual_cursor_vector (virtual_cursor st))
          in if face_index \<ge> length (faces (bmesh st)) then Inl IndexError
             else
               let face = faces (bmesh st) ! face_index;
                   max_dot = 1;
                   closest = fold (flow_step (matrix_world (obj st)) (bmesh st) cursor_arg
                                     cursor_direction max_dot)
                               (enumerate 0 face) (- 1, Vector 0 0 0)
               in if fst closest \<noteq> - 1
                  then Inr (st\<lparr>scene := (scene st)\<lparr>cursor_location := snd closest\<rparr>\<rparr>)
                  else Inr st)"

section \<open>Mesh raycast\<close>

definition raycast_object :: "BVHTree \<Rightarrow> Object \<Rightarrow> Vector \<Rightarrow> Vector \<Rightarrow> py_error + ray_result" where
  "raycast_object tr ob ray_origin ray_direction =
    (let matrix = matrix_world ob
     in case inverted matrix of
          None \<Rightarrow> Inl ValueError
        | Some matrix_inv \<Rightarrow>
           (let ray_origin_obj = matrix_inv ray_origin;
                ray_target_obj = matrix_inv (ray_origin + ray_direction);
                ray_direction_obj = ray_target_obj - ray_origin_obj
            in case tr ray_origin_obj ray_direction_obj of
                 None \<Rightarrow> Inr None
               | Some (location, normal, face_index, distance) \<Rightarrow>
                   Inr (Some (mat_mul matrix location, normal, face_index, distance))))"

section \<open>Face synthesizer\<close>

text \<open>
  \<open>build_face\<close> appends four vertices and one face; the new face's loops and material index
  start at the host's defaults. It returns the new face's index beside the new state.
\<close>

definition build_face ::
  "Host \<Rightarrow> State \<Rightarrow> Vector \<Rightarrow> Vector \<Rightarrow> Vector \<Rightarrow> Vector \<Rightarrow> Vector \<Rightarrow> py_error + (State \<times> nat)" where
  "build_face host st position x_vector y_vector up_vector right_vector =
    (case inverted (matrix_world (obj st)) of
       None \<Rightarrow> Inl ValueError
     | Some matrix_inv \<Rightarrow>
        (let face_position = matrix_inv position;
             x_dot = dot right_vector (normalized x_vector);
             y_dot = dot up_vector (normalized y_vector);
             x_positive = (x_dot > 0);
             y_positive = (y_dot > 0);
             mesh = bmesh st;
             n = length (verts mesh);
             vtx1 = n;
             vtx2 = n + 1;
             vtx3 = n + 2;
             vtx4 = n + 3;
             new_verts = [face_position, face_position + y_vector,
                          face_position + x_vector + y_vector, face_position + x_vector];
             face_order = (if x_positive = y_positive then [vtx1, vtx4, vtx3, vtx2]
                           else [vtx1, vtx2, vtx3, vtx4]);
             face_idx = length (faces mesh);
             mesh1 = mesh\<lparr>verts := verts mesh @ new_verts,
                          faces := faces mesh @ [face_order],
                          loop_uv := (\<lambda>(f, i). if f = face_idx then (0, 0) else loop_uv mesh (f, i)),
                          material_index := (material_index mesh)(face_idx := 0)\<rparr>
         in Inr (st\<lparr>bmesh := mesh1, tree := FromBMesh host mesh1\<rparr>, face_idx)))"

section \<open>Orchestrator\<close>

definition execute_paint :: "Host \<Rightarrow> State \<Rightarrow> Vector \<Rightarrow> Vector \<Rightarrow> py_error + State" where
  "execute_paint host st ray_origin ray_vector =
    (let (up_vector, right_vector, plane_normal) = get_current_grid_vectors (scene st)
     in case raycast_object (tree st) (obj st) ray_origin ray_vector of
          Inl e \<Rightarrow> Inl e
        | Inr None \<Rightarrow> Inr st
        | Inr (Some (hit_loc, normal, face_index, distance)) \<Rightarrow>
           (let st1 = st\<lparr>virtual_cursor := add_virtual_cursor (virtual_cursor st) hit_loc\<rparr>
            in case py_index (sprytile_grids (scene st1)) (sprytile_gridid (obj st1)) of
                 Inl e \<Rightarrow> Inl e
               | Inr grd \<Rightarrow>
                  (let tile_xy = tile_selection grd
                   in case uv_map_face host (scene st1) (obj st1) up_vector right_vector
                             tile_xy face_index (bmesh st1) of
                        Inl e \<Rightarrow> Inl e
                      | Inr (mesh1, None) \<Rightarrow> Inl TypeError
                      | Inr (mesh1, Some (face_index1, grd1)) \<Rightarrow>
                         (let mat = materials_find host (mat_id grd1)
                          in if mat > - 1
                             then (if face_index1 \<ge> length (faces mesh1) then Inl IndexError
                                   else Inr (st1\<lparr>bmesh := mesh1\<lparr>material_index :=
                                          (material_index mesh1)(face_index1 := mat)\<rparr>\<rparr>))
                             else Inr (st1\<lparr>bmesh := mesh1\<rparr>)))))"

text \<open>
  \<open>execute_build\<close>. \<open>hit_check\<close> is the test of the hit face (the two \<open>check_\<close> variables
  and their conjunction). \<open>paint_existing_face\<close> is the body of that \<open>if\<close>, which ends in
  \<open>return\<close>; \<open>build_on_grid\<close> is the code after it, reached when nothing is hit or the test
  fails.
\<close>

definition hit_check :: "Scene \<Rightarrow> Vector \<Rightarrow> Vector \<Rightarrow> Vector \<Rightarrow> bool" where
  "hit_check scn plane_normal hit_loc hit_normal =
    (let check_dot0 = dot plane_normal hit_normal - 1;
         check_coplanar0 = distance_point_to_plane hit_loc (cursor_location scn) plane_normal;
         check_coplanar = (case check_coplanar0 of None \<Rightarrow> False | Some d \<Rightarrow> \<bar>d\<bar> < 0.05);
         check_dot = (\<bar>check_dot0\<bar> < 0.05)
     in check_dot \<and> check_coplanar)"

definition paint_existing_face ::
  "Host \<Rightarrow> State \<Rightarrow> real \<times> real \<Rightarrow> Vector \<Rightarrow> Vector \<Rightarrow> Vector \<Rightarrow> nat \<Rightarrow> py_error + State" where
  "paint_existing_face host st tile_xy up_vector right_vector hit_loc face_index =
    (let st1 = st\<lparr>virtual_cursor := add_virtual_cursor (virtual_cursor st) hit_loc\<rparr>
     in case uv_map_face host (scene st1) (obj st1) up_vector right_vector
               tile_xy face_index (bmesh st1) of
          Inl e \<Rightarrow> Inl e
        | Inr (mesh1, r) \<Rightarrow>
           (let st2 = st1\<lparr>bmesh := mesh1\<rparr>
            in if cursor_flow (sprytile_data (scene st2))
               then flow_cursor st2 face_index hit_loc
               else Inr st2))"

definition build_on_grid ::
  "Host \<Rightarrow> State \<Rightarrow> real \<times> real \<Rightarrow> Vector \<Rightarrow> Vector \<Rightarrow> Vector \<Rightarrow> Vector \<Rightarrow> Vector
    \<Rightarrow> py_error + State" where
  "build_on_grid host st tile_xy up_vector right_vector plane_normal ray_origin ray_vector =
    (case raycast_grid (scene st) (sprytile_gridid (obj st)) up_vector
            right_vector plane_normal ray_origin ray_vector of
       Inl e \<Rightarrow> Inl e
     | Inr None \<Rightarrow> Inr st
     | Inr (Some (face_position, x_vector, y_vector, plane_cursor)) \<Rightarrow>
        (let st1 = st\<lparr>virtual_cursor := add_virtual_cursor (virtual_cursor st) plane_cursor\<rparr>
         in case build_face host st1 face_position x_vector y_vector up_vector right_vector of
              Inl e \<Rightarrow> Inl e
            | Inr (st2, face_index) \<Rightarrow>
               (case uv_map_face host (scene st2) (obj st2) up_vector
                       right_vector tile_xy face_index (bmesh st2) of
                  Inl e \<Rightarrow> Inl e
                | Inr (mesh3, r) \<Rightarrow>
                   (let st3 = st2\<lparr>bmesh := mesh3\<rparr>
                    in if cursor_flow (sprytile_data (scene st3))
                       then flow_cursor st3 face_index plane_cursor
                       else Inr st3))))"

definition execute_build :: "Host \<Rightarrow> State \<Rightarrow> Vector \<Rightarrow> Vector \<Rightarrow> py_error + State" where
  "execute_build host st ray_origin ray_vector =
    (case py_index (sprytile_grids (scene st)) (sprytile_gridid (obj st)) of
       Inl e \<Rightarrow> Inl e
     | Inr grd \<Rightarrow>
        (let tile_xy = tile_selection grd;
             (up_vector, right_vector, plane_normal) = get_current_grid_vectors (scene st)
         in case raycast_object (tree st) (obj st) ray_origin ray_vector of
              Inl e \<Rightarrow> Inl e
            | Inr None \<Rightarrow>
                build_on_grid host st tile_xy up_vector right_vector plane_normal
                  ray_origin ray_vector
            | Inr (Some (hit_loc, hit_normal, face_index, hit_dist)) \<Rightarrow>
                if hit_check (scene st) plane_normal hit_loc hit_normal
                then paint_existing_face host st tile_xy up_vector right_vector hit_loc
                       face_index
                else build_on_grid host st tile_xy up_vector right_vector plane_normal
                       ray_origin ray_vector))"

section \<open>Notions used in the statements\<close>

text \<open>
  The direction vector as the specification words it: the sum of the differences of
  consecutive entries divided by the number of differences, zero below two entries.
\<close>

definition spec_direction_vector :: "Vector list \<Rightarrow> Vector" where
  "spec_direction_vector vc =
    (if length vc < 2 then Vector 0 0 0
     else vdiv (sum_list (map (\<lambda>i. vc ! (i + 1) - vc ! i) [0 ..< length vc - 1]))
            (real (length vc - 1)))"

text \<open>
  \<open>uv_write\<close> is the assignment \<open>loop[uv_layer].uv = ...\<close> of \<open>uv_map_face\<close> as a function
  of the loop, with the projection \<open>g\<close> of a vertex coordinate left open.
\<close>

definition uv_write :: "nat \<Rightarrow> (Vector \<Rightarrow> real \<times> real) \<Rightarrow> BMesh \<Rightarrow> nat \<times> nat \<Rightarrow> BMesh \<Rightarrow> BMesh" where
  "uv_write f g mesh = (\<lambda>(i, v) m. m\<lparr>loop_uv := (loop_uv m)((f, i) := g (verts mesh ! v))\<rparr>)"

section \<open>Example scenes\<close>

text \<open>
  A scene with one grid of 32 by 32 pixel cells, 32 pixels to the world unit and tile
  \<open>(2, 1)\<close> selected, painting on the plane \<open>z = 0\<close> through the world origin with the
  normal \<open>(0, 0, 1)\<close> and up \<open>(0, 1, 0)\<close>; a mesh of one quad in that plane whose third
  vertex is its median centre; a host whose texture is 256 by 256 pixels, and one without a
  texture; the identity transform and a half turn about the X axis. \<open>ex_state hit m\<close> is the
  tool over that mesh with a spatial index that answers every ray with \<open>hit\<close>, on an object
  with world matrix \<open>m\<close>; \<open>ex_hit_state n\<close> reports a hit of face 0 at \<open>(1, 1, 0)\<close> with the
  normal \<open>n\<close>; \<open>ex_flow_state\<close> has a cursor history of two entries along X.
\<close>

definition ex_identity :: Matrix where
  "ex_identity = \<lparr>mat_mul = (\<lambda>v. v), inverted = Some (\<lambda>v. v)\<rparr>"

definition ex_flip :: Matrix where
  "ex_flip = \<lparr>mat_mul = (\<lambda>v. Vector (vx v) (- vy v) (- vz v)),
              inverted = Some (\<lambda>v. Vector (vx v) (- vy v) (- vz v))\<rparr>"

definition ex_grid :: SprytileGrid where
  "ex_grid = \<lparr>grid = (32, 32), tile_selection = (2, 1), mat_id = ''tiles''\<rparr>"

definition ex_scene :: Scene where
  "ex_scene = \<lparr>cursor_location = Vector 0 0 0,
               sprytile_data = \<lparr>world_pixels = 32, paint_normal_vector = Vector 0 0 1,
                                 paint_up_vector = Vector 0 1 0, cursor_flow = False\<rparr>,
               sprytile_grids = [ex_grid]\<rparr>"

definition ex_mesh :: BMesh where
  "ex_mesh = \<lparr>verts = [Vector 0 0 0, Vector 3 0 0, Vector 1 1 0, Vector 0 3 0],
              faces = [[0, 1, 2, 3]],
              loop_uv = (\<lambda>l. (0, 0)),
              material_index = (\<lambda>f. 0)\<rparr>"

definition ex_host :: Host where
  "ex_host = \<lparr>get_grid_texture = (\<lambda>g. Some \<lparr>img_size = (256, 256)\<rparr>),
              FromBMesh = (\<lambda>m ray_origin ray_direction. None),
              materials_find = (\<lambda>name. 0)\<rparr>"

definition ex_host_no_texture :: Host where
  "ex_host_no_texture = ex_host\<lparr>get_grid_texture := (\<lambda>g. None)\<rparr>"

definition ex_state :: "ray_result \<Rightarrow> Matrix \<Rightarrow> State" where
  "ex_state hit m = \<lparr>bmesh = ex_mesh, tree = (\<lambda>ray_origin ray_direction. hit),
                     virtual_cursor = [], scene = ex_scene,
                     obj = \<lparr>sprytile_gridid = 0, matrix_world = m\<rparr>\<rparr>"

definition ex_hit_state :: "Vector \<Rightarrow> State" where
  "ex_hit_state hit_normal = ex_state (Some (Vector 1 1 0, hit_normal, 0, 1)) ex_identity"

definition ex_flow_state :: State where
  "ex_flow_state =
    \<lparr>bmesh = \<lparr>verts = [Vector 1 0 0, Vector 3 4 0, Vector 0 1 0], faces = [[0, 1, 2]],
               loop_uv = (\<lambda>l. (0, 0)), material_index = (\<lambda>f. 0)\<rparr>,
     tree = (\<lambda>ray_origin ray_direction. None),
     virtual_cursor = [Vector 0 0 0, Vector 2 0 0], scene = ex_scene,
     obj = \<lparr>sprytile_gridid = 0, matrix_world = ex_identity\<rparr>\<rparr>"

text \<open>
  An arithmetic with little precision: single precision keeps multiples of \<open>2^-10\<close>,
  double precision multiples of \<open>2^-30\<close>, each result rounded to the nearest of them.
\<close>

definition ex_coarse_arith :: Arith where
  "ex_coarse_arith = \<lparr>f32 = (\<lambda>x. of_int \<lfloor>x * 2 ^ 10 + 1 / 2\<rfloor> / 2 ^ 10),
                      f64 = (\<lambda>x. of_int \<lfloor>x * 2 ^ 30 + 1 / 2\<rfloor> / 2 ^ 30),
                      lib_normalized = normalized\<rparr>"

section \<open>Vector lemmas\<close>

lemmas vec_defs = zero_Vector_def plus_Vector_def minus_Vector_def uminus_Vector_def
  smul_def vdiv_def dot_def cross_def magnitude_def normalized_def

lemmas ex_defs = ex_identity_def ex_flip_def ex_grid_def ex_scene_def ex_mesh_def ex_host_def
  ex_host_no_texture_def ex_state_def

lemma sqrt_25: "sqrt 25 = 5"
  by (rule real_sqrt_unique) simp_all




lemma magnitude_nonneg: "0 \<le> magnitude v"
  by (simp add: magnitude_def dot_def)

lemma dot_self_nonneg: "0 \<le> dot v v"
  by (simp add: dot_def)

lemma magnitude_pos: "0 < dot v v \<Longrightarrow> 0 < magnitude v"
  by (simp add: magnitude_def)

lemma normalized_sign_faithful: "sign_faithful normalized"
proof -
  have "(vx (normalized v) < 0 \<longrightarrow> vx v < 0) \<and> (0 < vx (normalized v) \<longrightarrow> 0 < vx v) \<and>
        (vy (normalized v) < 0 \<longrightarrow> vy v < 0) \<and> (0 < vy (normalized v) \<longrightarrow> 0 < vy v) \<and>
        (vz (normalized v) < 0 \<longrightarrow> vz v < 0) \<and> (0 < vz (normalized v) \<longrightarrow> 0 < vz v)" for v
  proof (cases "dot v v \<le> 1 / 10 ^ 35")
    case True
    then show ?thesis by (simp add: normalized_def)
  next
    case False
    then have "0 < dot v v" by (smt (verit) zero_less_divide_1_iff zero_less_numeral zero_less_power)
    then have "0 < magnitude v" by (rule magnitude_pos)
    with False show ?thesis
      by (simp add: normalized_def vdiv_def divide_less_0_iff zero_less_divide_iff)
  qed
  then show ?thesis unfolding sign_faithful_def by blast
qed

lemma normalized_on_x_axis:
  "normalized (Vector a 0 0) =
     (if a * a \<le> 1 / 10 ^ 35 then Vector 0 0 0 else Vector (a / \<bar>a\<bar>) 0 0)"
  by (simp add: normalized_def magnitude_def dot_def vdiv_def)

section \<open>Rounding: properties\<close>










text \<open>Without rounding, \<open>get_grid_pos_fl\<close> is \<open>get_grid_pos\<close>.\<close>

lemma get_grid_pos_fl_exact_arith:
  "get_grid_pos_fl exact_arith p c r u wp gx gy =
     (case get_grid_pos p c r u wp gx gy of Inl e \<Rightarrow> Inl e | Inr res \<Rightarrow> Inr (res, False))"
  by (simp add: get_grid_pos_fl_def get_grid_pos_def exact_arith_def Let_def
      vsub_fl_def vadd_fl_def smul_fl_def dot_fl_def div_fl_def vround_def round32_def
      round64_def dot_def smul_def mult.commute add.commute add.left_commute)

lemma snap_exact: "snap_vector_to_axis_fl exact_arith v mirrored = snap_vector_to_axis v mirrored"
  by (simp add: snap_vector_to_axis_fl_def snap_vector_to_axis_def axis_score_def exact_arith_def
      Let_def)

section \<open>Grid math: properties\<close>




lemmas op_defs = vsub_fl_def vadd_fl_def smul_fl_def dot_fl_def div_fl_def
  vround_def round32_def round64_def



text \<open>
  The same arithmetic at a cell size of a tenth of a world unit. The cell size is rounded
  in double precision and again when the edge vector is scaled by it in single precision,
  so the cell position returned for the sample \<open>(0.75, 0, 0)\<close>, seven edges from the origin,
  lies below seven cell sizes, and the query at that position returns the position six
  edges from the origin. Both runs raise the flag.
\<close>

lemma ex_coarse_rounded_requery:
  "get_grid_pos_fl ex_coarse_arith (Vector (3 / 4) 0 0) (Vector 0 0 0) (Vector 1 0 0)
      (Vector 0 1 0) 10 1 1
     = Inr ((Vector (357 / 512) 0 0, Vector (51 / 512) 0 0, Vector 0 (51 / 512) 0), True) \<and>
   get_grid_pos_fl ex_coarse_arith (Vector (357 / 512) 0 0) (Vector 0 0 0) (Vector 1 0 0)
      (Vector 0 1 0) 10 1 1
     = Inr ((Vector (153 / 256) 0 0, Vector (51 / 512) 0 0, Vector 0 (51 / 512) 0), True)"
proof -
  let ?A = ex_coarse_arith
  let ?u = "53687091 / 536870912 :: real"
  have n: "lib_normalized ?A (Vector (3 / 4) 0 0) = Vector 1 0 0"
    "lib_normalized ?A (Vector (357 / 512) 0 0) = Vector 1 0 0"
    by (simp_all add: ex_coarse_arith_def normalized_on_x_axis)
  have pv: "vsub_fl ?A (Vector (3 / 4) 0 0) (Vector 0 0 0) = (Vector (3 / 4) 0 0, False)"
    "vsub_fl ?A (Vector (357 / 512) 0 0) (Vector 0 0 0) = (Vector (357 / 512) 0 0, False)"
    by (simp_all add: op_defs ex_coarse_arith_def minus_Vector_def)
  have tr: "dot_fl ?A (Vector 1 0 0) (Vector 1 0 0) = (1, False)"
    "dot_fl ?A (Vector 0 1 0) (Vector 1 0 0) = (0, False)"
    by (simp_all add: op_defs ex_coarse_arith_def Let_def)
  have xm: "dot_fl ?A (Vector (3 / 4) 0 0) (Vector 1 0 0) = (3 / 4, False)"
    "dot_fl ?A (Vector (3 / 4) 0 0) (Vector 0 1 0) = (0, False)"
    "dot_fl ?A (Vector (357 / 512) 0 0) (Vector 1 0 0) = (357 / 512, False)"
    "dot_fl ?A (Vector (357 / 512) 0 0) (Vector 0 1 0) = (0, False)"
    by (simp_all add: op_defs ex_coarse_arith_def Let_def)
  have xu: "div_fl ?A 1 10 = (?u, True)"
    by (simp add: op_defs ex_coarse_arith_def)
  have xq: "div_fl ?A (3 / 4) ?u = (4026531855 / 536870912, True)"
    "div_fl ?A (357 / 512) ?u = (1871708167 / 268435456, True)"
    "div_fl ?A 0 ?u = (0, False)"
    by (simp_all add: op_defs ex_coarse_arith_def)
  have fl: "\<lfloor>4026531855 / 536870912 :: real\<rfloor> = 7" "\<lfloor>1871708167 / 268435456 :: real\<rfloor> = 6"
    by simp_all
  have r2: "smul_fl ?A (Vector 1 0 0) ?u = (Vector (51 / 512) 0 0, True)"
    "smul_fl ?A (Vector 0 1 0) ?u = (Vector 0 (51 / 512) 0, True)"
    by (simp_all add: op_defs ex_coarse_arith_def Let_def smul_def)
  have st: "smul_fl ?A (Vector (51 / 512) 0 0) 7 = (Vector (357 / 512) 0 0, False)"
    "smul_fl ?A (Vector (51 / 512) 0 0) 6 = (Vector (153 / 256) 0 0, False)"
    "smul_fl ?A (Vector 0 (51 / 512) 0) 0 = (Vector 0 0 0, False)"
    by (simp_all add: op_defs ex_coarse_arith_def Let_def smul_def)
  have ad: "vadd_fl ?A (Vector 0 0 0) (Vector (357 / 512) 0 0) = (Vector (357 / 512) 0 0, False)"
    "vadd_fl ?A (Vector (357 / 512) 0 0) (Vector 0 0 0) = (Vector (357 / 512) 0 0, False)"
    "vadd_fl ?A (Vector 0 0 0) (Vector (153 / 256) 0 0) = (Vector (153 / 256) 0 0, False)"
    "vadd_fl ?A (Vector (153 / 256) 0 0) (Vector 0 0 0) = (Vector (153 / 256) 0 0, False)"
    by (simp_all add: op_defs ex_coarse_arith_def plus_Vector_def)
  show ?thesis
    unfolding get_grid_pos_fl_def
    by (simp add: n pv tr xm xu xq fl r2 st ad Let_def)
qed




text \<open>
  Claim C3. The claim asks for basis vectors re-signed against the direction from the grid
  origin to the sample. For the sample \<open>(1, 0, 0)\<close> and the grid origin \<open>(2, 0, 0)\<close> that
  direction is \<open>(-1, 0, 0)\<close>, and \<open>get_grid_pos\<close> returns the right vector \<open>(1, 0, 0)\<close>,
  whose dot product with it is \<open>-1\<close>: the function normalizes \<open>position\<close>, not
  \<open>position_vector\<close>.
\<close>

theorem get_grid_pos_resigns_against_position:
  "get_grid_pos (Vector 1 0 0) (Vector 2 0 0) (Vector 1 0 0) (Vector 0 1 0) 32 32 32
     = Inr (Vector 1 0 0, Vector 1 0 0, Vector 0 1 0) \<and>
   dot (Vector 1 0 0) (normalized (Vector 1 0 0 - Vector 2 0 0)) = - 1"
  by (simp add: get_grid_pos_def vec_defs Let_def)

section \<open>Axis snapper: properties\<close>

lemma py_min_from_three:
  "fst (py_min_from (0, a) [(1, b), (2, c)]) =
     (if b < a then (if c < b then 2 else 1) else if c < a then 2 else 0)"
  by simp

lemma axis_score_axes:
  "axis_score A v (Vector 1 0 0) = f64 A (1 - \<bar>vx (lib_normalized A v)\<bar>)"
  "axis_score A v (Vector 0 1 0) = f64 A (1 - \<bar>vy (lib_normalized A v)\<bar>)"
  "axis_score A v (Vector 0 0 1) = f64 A (1 - \<bar>vz (lib_normalized A v)\<bar>)"
  by (simp_all add: axis_score_def dot_def)

text \<open>The result of the snapper by the position of the least score.\<close>

lemma snap_closed_form:
  "snap_vector_to_axis_fl A v mirrored =
    (let n = lib_normalized A v;
         sx = axis_score A v (Vector 1 0 0);
         sy = axis_score A v (Vector 0 1 0);
         sz = axis_score A v (Vector 0 0 1)
     in if sx \<le> sy \<and> sx \<le> sz
        then (if (\<not> mirrored \<and> vx n < 0) \<or> (mirrored \<and> 0 < vx n) then Vector (- 1) 0 0
              else Vector 1 0 0)
        else if sy < sx \<and> sy \<le> sz
        then (if (\<not> mirrored \<and> vy n < 0) \<or> (mirrored \<and> 0 < vy n) then Vector 0 (- 1) 0
              else Vector 0 1 0)
        else (if (\<not> mirrored \<and> vz n < 0) \<or> (mirrored \<and> 0 < vz n) then Vector 0 0 (- 1)
              else Vector 0 0 1))"
proof -
  define n where "n = lib_normalized A v"
  define sx where "sx = axis_score A v (Vector 1 0 0)"
  define sy where "sy = axis_score A v (Vector 0 1 0)"
  define sz where "sz = axis_score A v (Vector 0 0 1)"
  define k where "k = fst (py_min_from (0, sx) [(1, sy), (2, sz)])"
  have k: "k = (if sy < sx then (if sz < sy then 2 else 1) else if sz < sx then 2 else 0)"
    unfolding k_def by (rule py_min_from_three)
  have snap: "snap_vector_to_axis_fl A v mirrored =
      (let s = (if k = 0 then Vector 1 0 0 else if k = 1 then Vector 0 1 0 else Vector 0 0 1);
           d = dot n s
       in if \<not> mirrored \<and> d < 0 then smul s (- 1)
          else if mirrored \<and> d > 0 then smul s (- 1) else s)"
    unfolding snap_vector_to_axis_fl_def k_def n_def sx_def sy_def sz_def
    by (simp only: Let_def py_is_def list.sel nth_Cons_0 nth_Cons_Suc One_nat_def fst_conv)
  have "k = 0 \<or> k = 1 \<or> k = 2"
    unfolding k by simp
  then consider (x) "k = 0" | (y) "k = 1" | (z) "k = 2"
    by blast
  then show ?thesis
  proof cases
    case x
    then have c: "(sx \<le> sy \<and> sx \<le> sz) = True"
      unfolding k by (simp split: if_splits)
    have "snap_vector_to_axis_fl A v mirrored =
        (if (\<not> mirrored \<and> vx n < 0) \<or> (mirrored \<and> 0 < vx n) then Vector (- 1) 0 0
         else Vector 1 0 0)"
      unfolding snap x by (simp add: Let_def dot_def smul_def)
    then show ?thesis
      by (simp only: Let_def n_def [symmetric] sx_def [symmetric] sy_def [symmetric]
          sz_def [symmetric] c if_True)
  next
    case y
    then have c: "(sx \<le> sy \<and> sx \<le> sz) = False" "(sy < sx \<and> sy \<le> sz) = True"
      unfolding k by (simp_all split: if_splits)
    have "snap_vector_to_axis_fl A v mirrored =
        (if (\<not> mirrored \<and> vy n < 0) \<or> (mirrored \<and> 0 < vy n) then Vector 0 (- 1) 0
         else Vector 0 1 0)"
      unfolding snap y by (simp add: Let_def dot_def smul_def)
    then show ?thesis
      by (simp only: Let_def n_def [symmetric] sx_def [symmetric] sy_def [symmetric]
          sz_def [symmetric] c if_True if_False)
  next
    case z
    then have c: "(sx \<le> sy \<and> sx \<le> sz) = False" "(sy < sx \<and> sy \<le> sz) = False"
      unfolding k by (simp_all split: if_splits)
    have "snap_vector_to_axis_fl A v mirrored =
        (if (\<not> mirrored \<and> vz n < 0) \<or> (mirrored \<and> 0 < vz n) then Vector 0 0 (- 1)
         else Vector 0 0 1)"
      unfolding snap z by (simp add: Let_def dot_def smul_def)
    then show ?thesis
      by (simp only: Let_def n_def [symmetric] sx_def [symmetric] sy_def [symmetric]
          sz_def [symmetric] c if_True if_False)
  qed
qed

text \<open>A strictly least score belongs to a component of the normalized vector that is not zero.\<close>

lemma least_score_nonzero:
  assumes "mono (f64 A)" and "f64 A (1 - \<bar>a\<bar>) < f64 A (1 - \<bar>b\<bar>)"
  shows "a \<noteq> 0"
proof
  assume "a = 0"
  then have "f64 A (1 - \<bar>b\<bar>) \<le> f64 A (1 - \<bar>a\<bar>)"
    using assms(1) by (simp add: monoD)
  with assms(2) show False by simp
qed

text \<open>
  Claim C5, as amended. In whatever arithmetic whose normalization keeps the sign of every
  component it does not turn into zero and whose rounding is monotone: when the score
  \<open>1 - abs(dot)\<close> computed for one axis is strictly the least of the three, the snapper
  returns that axis with the sign of the input's component along it, and with the opposite
  sign when mirrored. When the least computed score is shared, the result lies on the first
  of the tied axes in the order X, Y, Z; for the direction \<open>(1, 1, 0)\<close> it is the X axis.
\<close>

theorem snap_vector_to_axis_nearest:
  assumes "sign_faithful (lib_normalized A)" and "mono (f64 A)"
  shows
  "(axis_score A v (Vector 1 0 0) < axis_score A v (Vector 0 1 0) \<and>
    axis_score A v (Vector 1 0 0) < axis_score A v (Vector 0 0 1) \<longrightarrow>
      snap_vector_to_axis_fl A v False = Vector (sgn (vx v)) 0 0 \<and>
      snap_vector_to_axis_fl A v True = Vector (- sgn (vx v)) 0 0) \<and>
   (axis_score A v (Vector 0 1 0) < axis_score A v (Vector 1 0 0) \<and>
    axis_score A v (Vector 0 1 0) < axis_score A v (Vector 0 0 1) \<longrightarrow>
      snap_vector_to_axis_fl A v False = Vector 0 (sgn (vy v)) 0 \<and>
      snap_vector_to_axis_fl A v True = Vector 0 (- sgn (vy v)) 0) \<and>
   (axis_score A v (Vector 0 0 1) < axis_score A v (Vector 1 0 0) \<and>
    axis_score A v (Vector 0 0 1) < axis_score A v (Vector 0 1 0) \<longrightarrow>
      snap_vector_to_axis_fl A v False = Vector 0 0 (sgn (vz v)) \<and>
      snap_vector_to_axis_fl A v True = Vector 0 0 (- sgn (vz v))) \<and>
   (axis_score A v (Vector 1 0 0) \<le> axis_score A v (Vector 0 1 0) \<and>
    axis_score A v (Vector 1 0 0) \<le> axis_score A v (Vector 0 0 1) \<longrightarrow>
      snap_vector_to_axis_fl A v mirrored \<in> {Vector 1 0 0, Vector (- 1) 0 0}) \<and>
   (axis_score A v (Vector 0 1 0) < axis_score A v (Vector 1 0 0) \<and>
    axis_score A v (Vector 0 1 0) \<le> axis_score A v (Vector 0 0 1) \<longrightarrow>
      snap_vector_to_axis_fl A v mirrored \<in> {Vector 0 1 0, Vector 0 (- 1) 0}) \<and>
   snap_vector_to_axis_fl exact_arith (Vector 1 1 0) False = Vector 1 0 0 \<and>
   snap_vector_to_axis_fl exact_arith (Vector 1 1 0) True = Vector (- 1) 0 0"
proof -
  define n where "n = lib_normalized A v"
  have sf: "(vx n < 0 \<longrightarrow> vx v < 0) \<and> (0 < vx n \<longrightarrow> 0 < vx v) \<and>
            (vy n < 0 \<longrightarrow> vy v < 0) \<and> (0 < vy n \<longrightarrow> 0 < vy v) \<and>
            (vz n < 0 \<longrightarrow> vz v < 0) \<and> (0 < vz n \<longrightarrow> 0 < vz v)"
    using assms(1) unfolding sign_faithful_def n_def by blast
  show ?thesis
  proof (intro conjI impI)
    assume h: "axis_score A v (Vector 1 0 0) < axis_score A v (Vector 0 1 0) \<and>
      axis_score A v (Vector 1 0 0) < axis_score A v (Vector 0 0 1)"
    then have "vx n \<noteq> 0"
      using least_score_nonzero [OF assms(2), of "vx n" "vy n"]
      by (simp add: axis_score_axes n_def)
    then have "(vx n < 0 \<and> vx v < 0) \<or> (0 < vx n \<and> 0 < vx v)"
      using sf by (cases "vx n < 0") auto
    with h show "snap_vector_to_axis_fl A v False = Vector (sgn (vx v)) 0 0"
      and "snap_vector_to_axis_fl A v True = Vector (- sgn (vx v)) 0 0"
      by (auto simp: snap_closed_form Let_def n_def [symmetric])
  next
    assume h: "axis_score A v (Vector 0 1 0) < axis_score A v (Vector 1 0 0) \<and>
      axis_score A v (Vector 0 1 0) < axis_score A v (Vector 0 0 1)"
    then have "vy n \<noteq> 0"
      using least_score_nonzero [OF assms(2), of "vy n" "vx n"]
      by (simp add: axis_score_axes n_def)
    then have "(vy n < 0 \<and> vy v < 0) \<or> (0 < vy n \<and> 0 < vy v)"
      using sf by (cases "vy n < 0") auto
    with h show "snap_vector_to_axis_fl A v False = Vector 0 (sgn (vy v)) 0"
      and "snap_vector_to_axis_fl A v True = Vector 0 (- sgn (vy v)) 0"
      by (auto simp: snap_closed_form Let_def n_def [symmetric])
  next
    assume h: "axis_score A v (Vector 0 0 1) < axis_score A v (Vector 1 0 0) \<and>
      axis_score A v (Vector 0 0 1) < axis_score A v (Vector 0 1 0)"
    then have "vz n \<noteq> 0"
      using least_score_nonzero [OF assms(2), of "vz n" "vx n"]
      by (simp add: axis_score_axes n_def)
    then have "(vz n < 0 \<and> vz v < 0) \<or> (0 < vz n \<and> 0 < vz v)"
      using sf by (cases "vz n < 0") auto
    with h show "snap_vector_to_axis_fl A v False = Vector 0 0 (sgn (vz v))"
      and "snap_vector_to_axis_fl A v True = Vector 0 0 (- sgn (vz v))"
      by (auto simp: snap_closed_form Let_def n_def [symmetric])
  next
    assume "axis_score A v (Vector 1 0 0) \<le> axis_score A v (Vector 0 1 0) \<and>
      axis_score A v (Vector 1 0 0) \<le> axis_score A v (Vector 0 0 1)"
    then show "snap_vector_to_axis_fl A v mirrored \<in> {Vector 1 0 0, Vector (- 1) 0 0}"
      by (simp add: snap_closed_form Let_def)
  next
    assume "axis_score A v (Vector 0 1 0) < axis_score A v (Vector 1 0 0) \<and>
      axis_score A v (Vector 0 1 0) \<le> axis_score A v (Vector 0 0 1)"
    then show "snap_vector_to_axis_fl A v mirrored \<in> {Vector 0 1 0, Vector 0 (- 1) 0}"
      by (simp add: snap_closed_form Let_def)
  next
    show "snap_vector_to_axis_fl exact_arith (Vector 1 1 0) False = Vector 1 0 0"
      by (simp add: snap_exact snap_vector_to_axis_def py_is_def vec_defs Let_def)
    show "snap_vector_to_axis_fl exact_arith (Vector 1 1 0) True = Vector (- 1) 0 0"
      by (simp add: snap_exact snap_vector_to_axis_def py_is_def vec_defs Let_def)
  qed
qed

theorem snap_vector_to_axis_nearest_witness:
  "sign_faithful (lib_normalized exact_arith) \<and> mono (f64 exact_arith) \<and>
   axis_score exact_arith (Vector 0 (- 2) 0) (Vector 0 1 0)
     < axis_score exact_arith (Vector 0 (- 2) 0) (Vector 1 0 0) \<and>
   axis_score exact_arith (Vector 0 (- 2) 0) (Vector 0 1 0)
     < axis_score exact_arith (Vector 0 (- 2) 0) (Vector 0 0 1) \<and>
   snap_vector_to_axis_fl exact_arith (Vector 0 (- 2) 0) False = Vector 0 (- 1) 0 \<and>
   snap_vector_to_axis_fl exact_arith (Vector 0 (- 2) 0) True = Vector 0 1 0"
proof -
  have h1: "sign_faithful (lib_normalized exact_arith)"
    by (simp add: exact_arith_def normalized_sign_faithful)
  have h2: "mono (f64 exact_arith)"
    by (simp add: exact_arith_def mono_def)
  show ?thesis
    using snap_vector_to_axis_nearest [OF h1 h2, of "Vector 0 (- 2) 0"] h1 h2
    by (simp add: axis_score_def exact_arith_def vec_defs)
qed

text \<open>
  Claim C5 as stated fails: the vector \<open>(0, 2^-80, 0)\<close> is a positive multiple of the Y axis,
  its squared length is below the threshold of \<open>normalized()\<close>, the three scores tie at
  \<open>1\<close>, and the snapper returns the X axis, mirrored or not.
\<close>

theorem snap_vector_to_axis_short_counterexample:
  "Vector 0 (1 / 2 ^ 80) 0 = smul (Vector 0 1 0) (1 / 2 ^ 80) \<and>
   snap_vector_to_axis (Vector 0 (1 / 2 ^ 80) 0) False = Vector 1 0 0 \<and>
   snap_vector_to_axis (Vector 0 (1 / 2 ^ 80) 0) True = Vector 1 0 0"
  by (simp add: snap_vector_to_axis_def py_is_def vec_defs Let_def)

section \<open>Virtual cursor: properties\<close>

text \<open>
  Claim C6. For the history \<open>[(0, 0, 0), (2, 0, 0)]\<close> the only difference is \<open>(2, 0, 0)\<close>,
  which is also the average of the differences; \<open>get_virtual_cursor_vector\<close> returns
  \<open>(1, 0, 0)\<close>, the sum of the differences divided by the number of entries.
\<close>

theorem get_virtual_cursor_vector_divides_by_length:
  "get_virtual_cursor_vector [Vector 0 0 0, Vector 2 0 0] = Vector 1 0 0 \<and>
   spec_direction_vector [Vector 0 0 0, Vector 2 0 0] = Vector 2 0 0"
  by (simp add: get_virtual_cursor_vector_def spec_direction_vector_def vec_defs)

text \<open>
  Claim C4. The history \<open>[(0, 0, 0), (2, 0, 0)]\<close> gives the travel direction \<open>(1, 0, 0)\<close>. Seen
  from the cursor at the origin, the face's vertices \<open>(1, 0, 0)\<close>, \<open>(3, 4, 0)\<close> and
  \<open>(0, 1, 0)\<close> score \<open>0\<close>, \<open>2/5\<close> and \<open>1\<close>. The minimum is at \<open>(1, 0, 0)\<close>;
  \<open>flow_cursor\<close> moves the reference cursor to \<open>(3, 4, 0)\<close>, the last vertex that scores
  below \<open>1\<close>, since \<open>max_dot\<close> keeps its initial value.
\<close>

theorem flow_cursor_takes_last_candidate:
  "normalized (get_virtual_cursor_vector (virtual_cursor ex_flow_state)) = Vector 1 0 0 \<and>
   vert_dot (Vector 1 0 0) (Vector 0 0 0) (Vector 1 0 0) = 0 \<and>
   vert_dot (Vector 3 4 0) (Vector 0 0 0) (Vector 1 0 0) = 2 / 5 \<and>
   vert_dot (Vector 0 1 0) (Vector 0 0 0) (Vector 1 0 0) = 1 \<and>
   flow_cursor ex_flow_state 0 (Vector 0 0 0)
     = Inr (ex_flow_state\<lparr>scene := (scene ex_flow_state)\<lparr>cursor_location := Vector 3 4 0\<rparr>\<rparr>)"
  by (simp add: flow_cursor_def flow_step_def vert_dot_def get_virtual_cursor_vector_def
      ex_flow_state_def ex_defs vec_defs sqrt_25 Let_def enumerate_eq_zip)

section \<open>Face synthesizer: properties\<close>

text \<open>
  Claim C7. For an object whose world matrix has an inverse, \<open>build_face\<close> appends one face
  whose vertices are, in order, \<open>(P1, P4, P3, P2)\<close> when the dot products of the painting
  right/up vectors with the normalized cell edges are both positive or both non-positive, and
  \<open>(P1, P2, P3, P4)\<close> otherwise, where \<open>P1\<close> is the cell origin in object space,
  \<open>P2 = P1 + y_vector\<close>, \<open>P3 = P1 + x_vector + y_vector\<close> and \<open>P4 = P1 + x_vector\<close>.
\<close>

theorem build_face_winding:
  assumes "inverted (matrix_world (obj st)) = Some matrix_inv"
  shows "\<exists>st1 face.
           build_face host st position x_vector y_vector up_vector right_vector
             = Inr (st1, length (faces (bmesh st))) \<and>
           faces (bmesh st1) = faces (bmesh st) @ [face] \<and>
           map ((!) (verts (bmesh st1))) face =
             (let P1 = matrix_inv position;
                  P2 = P1 + y_vector;
                  P3 = P1 + x_vector + y_vector;
                  P4 = P1 + x_vector;
                  x_dot = dot right_vector (normalized x_vector);
                  y_dot = dot up_vector (normalized y_vector)
              in if (0 < x_dot \<and> 0 < y_dot) \<or> (x_dot \<le> 0 \<and> y_dot \<le> 0)
                 then [P1, P4, P3, P2] else [P1, P2, P3, P4])"
  using assms
  by (auto simp add: build_face_def Let_def nth_append)

theorem build_face_winding_witness:
  "inverted (matrix_world (obj (ex_state None ex_identity))) = Some (\<lambda>v. v) \<and>
   (\<exists>st1 face.
      build_face ex_host (ex_state None ex_identity) (Vector 1 1 0) (Vector 1 0 0) (Vector 0 1 0)
        (Vector 0 1 0) (Vector 1 0 0) = Inr (st1, 1) \<and>
      faces (bmesh st1) = [[0, 1, 2, 3], face] \<and>
      map ((!) (verts (bmesh st1))) face
        = [Vector 1 1 0, Vector 2 1 0, Vector 2 2 0, Vector 1 2 0]) \<and>
   (\<exists>st1 face.
      build_face ex_host (ex_state None ex_identity) (Vector 1 1 0) (Vector 1 0 0) (Vector 0 1 0)
        (Vector 0 1 0) (Vector (- 1) 0 0) = Inr (st1, 1) \<and>
      faces (bmesh st1) = [[0, 1, 2, 3], face] \<and>
      map ((!) (verts (bmesh st1))) face
        = [Vector 1 1 0, Vector 1 2 0, Vector 2 2 0, Vector 2 1 0])"
  using build_face_winding [of "ex_state None ex_identity" "\<lambda>v. v" ex_host "Vector 1 1 0"
      "Vector 1 0 0" "Vector 0 1 0" "Vector 0 1 0" "Vector 1 0 0"]
    build_face_winding [of "ex_state None ex_identity" "\<lambda>v. v" ex_host "Vector 1 1 0"
      "Vector 1 0 0" "Vector 0 1 0" "Vector 0 1 0" "Vector (- 1) 0 0"]
  by (simp add: ex_defs vec_defs Let_def)

section \<open>UV projection: properties\<close>

lemma fold_uv_geometry:
  "verts (fold (uv_write f g mesh) ivs m) = verts m \<and>
   faces (fold (uv_write f g mesh) ivs m) = faces m \<and>
   material_index (fold (uv_write f g mesh) ivs m) = material_index m"
  by (induction ivs arbitrary: m) (simp_all add: uv_write_def split: prod.splits)

lemma fold_uv_loop:
  "loop_uv (fold (uv_write f g mesh) (enumerate k face) m) (f', j) =
     (if f' = f \<and> k \<le> j \<and> j < k + length face then g (verts mesh ! (face ! (j - k)))
      else loop_uv m (f', j))"
proof (induction face arbitrary: k m)
  case Nil
  then show ?case by auto
next
  case (Cons v face)
  have step: "fold (uv_write f g mesh) (enumerate k (v # face)) m =
      fold (uv_write f g mesh) (enumerate (Suc k) face) (uv_write f g mesh (k, v) m)"
    by simp
  show ?case
    unfolding step Cons.IH by (auto simp: uv_write_def nth_Cons')
qed

lemma uv_map_face_Inr:
  assumes "uv_map_face host scn ob up right tile_xy face_index mesh = Inr (mesh1, r)"
  shows "verts mesh1 = verts mesh \<and> faces mesh1 = faces mesh \<and>
         material_index mesh1 = material_index mesh"
  using assms fold_uv_geometry [of face_index _ mesh _ mesh]
  unfolding uv_map_face_def uv_write_def Let_def
  by (auto split: sum.splits if_splits option.splits)

lemma flow_cursor_Inr:
  assumes "flow_cursor st face_index c = Inr st1"
  shows "bmesh st1 = bmesh st \<and> tree st1 = tree st \<and> virtual_cursor st1 = virtual_cursor st
         \<and> obj st1 = obj st"
  using assms unfolding flow_cursor_def Let_def
  by (auto split: if_splits)

lemma uv_map_face_noop:
  assumes "py_index (sprytile_grids scn) (sprytile_gridid ob) = Inr target_grid"
    and "world_pixels (sprytile_data scn) \<noteq> 0"
    and "face_index \<ge> length (faces mesh) \<or> get_grid_texture host target_grid = None"
  shows "uv_map_face host scn ob up right tile_xy face_index mesh = Inr (mesh, None)"
  using assms by (auto simp: uv_map_face_def Let_def)

text \<open>
  Claim C8. With a grid cell of 32 by 32 pixels, a texture of 256 by 256 pixels and the tile
  \<open>(2, 1)\<close>, \<open>uv_unit\<close> is \<open>(0.125, 0.125)\<close>, and \<open>uv_map_face\<close> gives every loop of the
  face whose vertex lies at the face's median centre the UV coordinate \<open>(0.3125, 0.1875)\<close>.
\<close>

theorem uv_map_face_tile_centre:
  assumes "py_index (sprytile_grids scn) (sprytile_gridid ob) = Inr target_grid"
    and "grid target_grid = (32, 32)"
    and "get_grid_texture host target_grid = Some target_img"
    and "img_size target_img = (256, 256)"
    and "world_pixels (sprytile_data scn) \<noteq> 0"
    and "face_index < length (faces mesh)"
    and "i < length (faces mesh ! face_index)"
    and "verts mesh ! (faces mesh ! face_index ! i)
           = calc_center_median mesh (faces mesh ! face_index)"
  shows "uv_unit target_img target_grid = (0.125, 0.125) \<and>
         (\<exists>mesh1. uv_map_face host scn ob up right (2, 1) face_index mesh
                    = Inr (mesh1, Some (face_index, target_grid)) \<and>
                  loop_uv mesh1 (face_index, i) = (0.3125, 0.1875))"
proof -
  have u: "uv_unit target_img target_grid = (0.125, 0.125)"
    using assms(2,4) by (simp add: uv_unit_def)
  have ne: "faces mesh ! face_index \<noteq> []" using assms(7) by auto
  define wc where "wc = (fst (grid target_grid) / world_pixels (sprytile_data scn),
                        snd (grid target_grid) / world_pixels (sprytile_data scn))"
  define g where "g = uv_project up right wc (0.125, 0.125) (2, 1)
                        (calc_center_median mesh (faces mesh ! face_index))"
  have m: "uv_map_face host scn ob up right (2, 1) face_index mesh =
      Inr (fold (uv_write face_index g mesh) (enumerate 0 (faces mesh ! face_index)) mesh,
           Some (face_index, target_grid))"
    using assms(1-6) u
    by (simp add: uv_map_face_def Let_def uv_write_def g_def wc_def)
  have "g (verts mesh ! (faces mesh ! face_index ! i)) = (0.3125, 0.1875)"
    unfolding assms(8) g_def by (simp add: uv_project_def dot_def minus_Vector_def zero_Vector_def)
  then have "loop_uv (fold (uv_write face_index g mesh) (enumerate 0 (faces mesh ! face_index)) mesh)
               (face_index, i) = (0.3125, 0.1875)"
    using assms(7) by (simp add: fold_uv_loop)
  with u m show ?thesis by simp
qed

theorem uv_map_face_tile_centre_witness:
  "py_index (sprytile_grids ex_scene) 0 = Inr ex_grid \<and> grid ex_grid = (32, 32) \<and>
   get_grid_texture ex_host ex_grid = Some \<lparr>img_size = (256, 256)\<rparr> \<and>
   world_pixels (sprytile_data ex_scene) \<noteq> 0 \<and> (0::nat) < length (faces ex_mesh) \<and>
   (2::nat) < length (faces ex_mesh ! 0) \<and>
   verts ex_mesh ! (faces ex_mesh ! 0 ! 2) = calc_center_median ex_mesh (faces ex_mesh ! 0) \<and>
   uv_unit \<lparr>img_size = (256, 256)\<rparr> ex_grid = (0.125, 0.125) \<and>
   (\<exists>mesh1. uv_map_face ex_host ex_scene \<lparr>sprytile_gridid = 0, matrix_world = ex_identity\<rparr>
               (Vector 0 1 0) (Vector 1 0 0) (2, 1) 0 ex_mesh = Inr (mesh1, Some (0, ex_grid)) \<and>
            loop_uv mesh1 (0, 2) = (0.3125, 0.1875))"
  using uv_map_face_tile_centre [of ex_scene "\<lparr>sprytile_gridid = 0, matrix_world = ex_identity\<rparr>"
      ex_grid ex_host "\<lparr>img_size = (256, 256)\<rparr>" 0 ex_mesh 2 "Vector 0 1 0" "Vector 1 0 0"]
  by (simp add: py_index_def ex_defs calc_center_median_def vec_defs)

text \<open>
  Claim C9. With a grid whose texture cannot be resolved, \<open>uv_map_face\<close> itself returns
  \<open>None\<close> and leaves the mesh as it is (lemma \<open>uv_map_face_noop\<close>), but \<open>execute_paint\<close>
  unpacks that result into \<open>face_index, grid\<close> and raises \<open>TypeError\<close>.
\<close>

theorem execute_paint_unpacks_none:
  "uv_map_face ex_host_no_texture ex_scene \<lparr>sprytile_gridid = 0, matrix_world = ex_identity\<rparr>
      (Vector 0 1 0) (Vector 1 0 0) (2, 1) 0 ex_mesh = Inr (ex_mesh, None) \<and>
   execute_paint ex_host_no_texture
      (ex_state (Some (Vector 1 1 0, Vector 0 0 1, 0, 1)) ex_identity)
      (Vector 1 1 1) (Vector 0 0 (- 1)) = Inl TypeError"
  by (simp add: execute_paint_def uv_map_face_def raycast_object_def get_current_grid_vectors_def
      add_virtual_cursor_def deque_append_def py_index_def ex_defs vec_defs Let_def)

section \<open>Orchestrator: properties\<close>

text \<open>
  Claim C10. For an object whose world matrix has an inverse, \<open>raycast_object\<close> returns no
  hit exactly when the spatial index reports none for the ray in object space. On a hit only
  the location is multiplied by the world matrix; normal, face index and distance are
  returned as the index gave them, and \<open>execute_build\<close> decides between painting the hit
  face and building on the grid by the dot product of the plane normal with that normal.
\<close>

theorem raycast_object_local_normal:
  assumes "inverted (matrix_world (obj st)) = Some matrix_inv"
    and "py_index (sprytile_grids (scene st)) (sprytile_gridid (obj st)) = Inr grd"
    and "get_current_grid_vectors (scene st) = (up_vector, right_vector, plane_normal)"
  shows "(raycast_object (tree st) (obj st) ray_origin ray_vector = Inr None \<longleftrightarrow>
            tree st (matrix_inv ray_origin)
              (matrix_inv (ray_origin + ray_vector) - matrix_inv ray_origin) = None) \<and>
         (\<forall>location normal face_index distance.
            tree st (matrix_inv ray_origin)
              (matrix_inv (ray_origin + ray_vector) - matrix_inv ray_origin)
              = Some (location, normal, face_index, distance) \<longrightarrow>
            raycast_object (tree st) (obj st) ray_origin ray_vector
              = Inr (Some (mat_mul (matrix_world (obj st)) location, normal, face_index,
                           distance)) \<and>
            execute_build host st ray_origin ray_vector =
              (if \<bar>dot plane_normal normal - 1\<bar> < 0.05 \<and>
                  (case distance_point_to_plane (mat_mul (matrix_world (obj st)) location)
                          (cursor_location (scene st)) plane_normal of
                     None \<Rightarrow> False | Some d \<Rightarrow> \<bar>d\<bar> < 0.05)
               then paint_existing_face host st (tile_selection grd) up_vector right_vector
                      (mat_mul (matrix_world (obj st)) location) face_index
               else build_on_grid host st (tile_selection grd) up_vector right_vector
                      plane_normal ray_origin ray_vector))"
  using assms
  by (auto simp add: raycast_object_def execute_build_def hit_check_def Let_def
      split: option.splits)


theorem raycast_object_local_normal_witness:
  "inverted (matrix_world (obj (ex_state (Some (Vector 1 (- 1) 0, Vector 0 0 1, 0, 1)) ex_flip)))
     = Some (\<lambda>v. Vector (vx v) (- vy v) (- vz v)) \<and>
   py_index (sprytile_grids ex_scene) 0 = Inr ex_grid \<and>
   get_current_grid_vectors ex_scene = (Vector 0 1 0, Vector 1 0 0, Vector 0 0 1) \<and>
   raycast_object (\<lambda>ray_origin ray_direction. Some (Vector 1 (- 1) 0, Vector 0 0 1, 0, 1))
     \<lparr>sprytile_gridid = 0, matrix_world = ex_flip\<rparr> (Vector 1 1 1) (Vector 0 0 (- 1))
     = Inr (Some (Vector 1 1 0, Vector 0 0 1, 0, 1)) \<and>
   execute_build ex_host (ex_state (Some (Vector 1 (- 1) 0, Vector 0 0 1, 0, 1)) ex_flip)
       (Vector 1 1 1) (Vector 0 0 (- 1))
     = paint_existing_face ex_host
         (ex_state (Some (Vector 1 (- 1) 0, Vector 0 0 1, 0, 1)) ex_flip) (2, 1)
         (Vector 0 1 0) (Vector 1 0 0) (Vector 1 1 0) 0"
proof -
  let ?st = "ex_state (Some (Vector 1 (- 1) 0, Vector 0 0 1, 0, 1)) ex_flip"
  have h1: "inverted (matrix_world (obj ?st)) = Some (\<lambda>v. Vector (vx v) (- vy v) (- vz v))"
    by (simp add: ex_defs)
  have sc: "scene ?st = ex_scene" "sprytile_gridid (obj ?st) = 0"
    by (simp_all add: ex_state_def)
  have h2: "py_index (sprytile_grids (scene ?st)) (sprytile_gridid (obj ?st)) = Inr ex_grid"
    by (simp add: ex_defs py_index_def)
  have h3: "get_current_grid_vectors (scene ?st) = (Vector 0 1 0, Vector 1 0 0, Vector 0 0 1)"
    by (simp add: ex_defs get_current_grid_vectors_def vec_defs)
  note h2' = h2 [unfolded sc] and h3' = h3 [unfolded sc]
  have t: "tree ?st v w = Some (Vector 1 (- 1) 0, Vector 0 0 1, 0, 1)" for v w
    by (simp add: ex_defs)
  have d: "distance_point_to_plane (Vector 1 1 0) (Vector 0 0 0) (Vector 0 0 1) = Some 0"
    by (simp add: distance_point_to_plane_def vec_defs)
  from raycast_object_local_normal [OF h1 h2 h3, of "Vector 1 1 1" "Vector 0 0 (- 1)" ex_host] t
  have "raycast_object (tree ?st) (obj ?st) (Vector 1 1 1) (Vector 0 0 (- 1))
          = Inr (Some (mat_mul (matrix_world (obj ?st)) (Vector 1 (- 1) 0), Vector 0 0 1, 0, 1)) \<and>
        execute_build ex_host ?st (Vector 1 1 1) (Vector 0 0 (- 1)) =
          (if \<bar>dot (Vector 0 0 1) (Vector 0 0 1) - 1\<bar> < 0.05 \<and>
              (case distance_point_to_plane (mat_mul (matrix_world (obj ?st)) (Vector 1 (- 1) 0))
                      (cursor_location (scene ?st)) (Vector 0 0 1) of
                 None \<Rightarrow> False | Some d \<Rightarrow> \<bar>d\<bar> < 0.05)
           then paint_existing_face ex_host ?st (tile_selection ex_grid) (Vector 0 1 0)
                  (Vector 1 0 0) (mat_mul (matrix_world (obj ?st)) (Vector 1 (- 1) 0)) 0
           else build_on_grid ex_host ?st (tile_selection ex_grid) (Vector 0 1 0) (Vector 1 0 0)
                  (Vector 0 0 1) (Vector 1 1 1) (Vector 0 0 (- 1)))"
    by blast
  moreover have "mat_mul (matrix_world (obj ?st)) (Vector 1 (- 1) 0) = Vector 1 1 0"
    "cursor_location ex_scene = Vector 0 0 0" "tile_selection ex_grid = (2, 1)"
    "tree ?st = (\<lambda>ray_origin ray_direction. Some (Vector 1 (- 1) 0, Vector 0 0 1, 0, 1))"
    "obj ?st = \<lparr>sprytile_gridid = 0, matrix_world = ex_flip\<rparr>"
    by (simp_all add: ex_defs)
  moreover have "dot (Vector 0 0 1) (Vector 0 0 1) = 1" by (simp add: dot_def)
  ultimately show ?thesis using h1 h2' h3' d
    by (simp add: sc)
qed

lemma paint_existing_face_Inr:
  assumes "paint_existing_face host st tile_xy up right hit_loc face_index = Inr st1"
  shows "verts (bmesh st1) = verts (bmesh st) \<and> faces (bmesh st1) = faces (bmesh st) \<and>
         tree st1 = tree st \<and>
         virtual_cursor st1 = add_virtual_cursor (virtual_cursor st) hit_loc \<and>
         (\<exists>r. uv_map_face host (scene st) (obj st) up right tile_xy face_index (bmesh st)
                = Inr (bmesh st1, r))"
proof -
  let ?st1 = "st\<lparr>virtual_cursor := add_virtual_cursor (virtual_cursor st) hit_loc\<rparr>"
  obtain mesh1 r where uv:
    "uv_map_face host (scene st) (obj st) up right tile_xy face_index (bmesh st) = Inr (mesh1, r)"
    using assms unfolding paint_existing_face_def Let_def
    by (auto split: sum.splits)
  have geo: "verts mesh1 = verts (bmesh st) \<and> faces mesh1 = faces (bmesh st)"
    using uv_map_face_Inr [OF uv] by simp
  let ?st2 = "?st1\<lparr>bmesh := mesh1\<rparr>"
  have "st1 = ?st2 \<or> flow_cursor ?st2 face_index hit_loc = Inr st1"
    using assms uv unfolding paint_existing_face_def Let_def
    by (auto split: if_splits)
  then have "bmesh st1 = mesh1 \<and> tree st1 = tree st \<and>
             virtual_cursor st1 = add_virtual_cursor (virtual_cursor st) hit_loc"
    using flow_cursor_Inr [of ?st2 face_index hit_loc st1] by auto
  with geo uv show ?thesis by auto
qed

lemma ex_build_facing:
  "execute_build ex_host (ex_hit_state (Vector 0 0 1)) (Vector 1 1 1) (Vector 0 0 (- 1))
     = Inr ((ex_hit_state (Vector 0 0 1))\<lparr>virtual_cursor := [Vector 1 1 0],
          bmesh := ex_mesh\<lparr>loop_uv := (\<lambda>l. (0, 0))
            ((0, 0) := (3 / 16, 1 / 16), (0, 1) := (9 / 16, 1 / 16),
             (0, 2) := (5 / 16, 3 / 16), (0, 3) := (3 / 16, 7 / 16))\<rparr>\<rparr>)"
  by (simp add: execute_build_def paint_existing_face_def hit_check_def uv_map_face_def
      raycast_object_def get_current_grid_vectors_def distance_point_to_plane_def
      add_virtual_cursor_def deque_append_def py_index_def uv_unit_def uv_project_def
      calc_center_median_def ex_hit_state_def ex_defs vec_defs Let_def enumerate_eq_zip
      eval_nat_numeral)

lemmas build_defs = execute_build_def paint_existing_face_def build_on_grid_def hit_check_def
  uv_map_face_def raycast_object_def raycast_grid_def get_grid_pos_def build_face_def
  intersect_line_plane_def FLT_EPSILON_def get_current_grid_vectors_def
  distance_point_to_plane_def add_virtual_cursor_def deque_append_def py_index_def uv_unit_def
  uv_project_def calc_center_median_def

lemma hit_check_opposite: "\<not> hit_check scn plane_normal hit_loc (- plane_normal)"
proof -
  have "dot plane_normal (- plane_normal) = - dot plane_normal plane_normal"
    by (simp add: dot_def uminus_Vector_def)
  then have "\<bar>dot plane_normal (- plane_normal) - 1\<bar> = dot plane_normal plane_normal + 1"
    using dot_self_nonneg [of plane_normal] by simp
  then show ?thesis
    using dot_self_nonneg [of plane_normal] by (simp add: hit_check_def Let_def)
qed

text \<open>
  Claim C1, as amended. When the mesh raycast returns a hit whose normal points the same way
  as the plane normal (\<open>|dot - 1| < 0.05\<close>) and whose location is less than \<open>0.05\<close> from
  the reference plane, \<open>execute_build\<close> is \<open>paint_existing_face\<close>: when it returns, the
  cursor sample is recorded, the mesh is the one \<open>uv_map_face\<close> returns for the hit face,
  and vertices, faces and spatial index are those from before. When the hit's normal is
  exactly opposite to the plane normal, \<open>execute_build\<close> is \<open>build_on_grid\<close>, as if
  nothing had been hit.
\<close>

theorem execute_build_paints_facing_hit:
  assumes "raycast_object (tree st) (obj st) ray_origin ray_vector
             = Inr (Some (hit_loc, hit_normal, face_index, hit_dist))"
    and "get_current_grid_vectors (scene st) = (up_vector, right_vector, plane_normal)"
  shows "(\<bar>dot plane_normal hit_normal - 1\<bar> < 0.05 \<and>
          distance_point_to_plane hit_loc (cursor_location (scene st)) plane_normal = Some d \<and>
          \<bar>d\<bar> < 0.05 \<and>
          execute_build host st ray_origin ray_vector = Inr st1 \<longrightarrow>
            verts (bmesh st1) = verts (bmesh st) \<and> faces (bmesh st1) = faces (bmesh st) \<and>
            tree st1 = tree st \<and>
            virtual_cursor st1 = add_virtual_cursor (virtual_cursor st) hit_loc \<and>
            (\<exists>grd r. py_index (sprytile_grids (scene st)) (sprytile_gridid (obj st)) = Inr grd \<and>
               execute_build host st ray_origin ray_vector
                 = paint_existing_face host st (tile_selection grd) up_vector right_vector
                     hit_loc face_index \<and>
               uv_map_face host (scene st) (obj st) up_vector right_vector (tile_selection grd)
                 face_index (bmesh st) = Inr (bmesh st1, r))) \<and>
         (hit_normal = - plane_normal \<longrightarrow>
            execute_build host st ray_origin ray_vector =
              (case py_index (sprytile_grids (scene st)) (sprytile_gridid (obj st)) of
                 Inl e \<Rightarrow> Inl e
               | Inr grd \<Rightarrow>
                   build_on_grid host st (tile_selection grd) up_vector right_vector
                     plane_normal ray_origin ray_vector))"
proof (rule conjI; rule impI)
  assume h: "\<bar>dot plane_normal hit_normal - 1\<bar> < 0.05 \<and>
      distance_point_to_plane hit_loc (cursor_location (scene st)) plane_normal = Some d \<and>
      \<bar>d\<bar> < 0.05 \<and>
      execute_build host st ray_origin ray_vector = Inr st1"
  then obtain grd where
    g: "py_index (sprytile_grids (scene st)) (sprytile_gridid (obj st)) = Inr grd"
    unfolding execute_build_def by (auto split: sum.splits)
  have hc: "hit_check (scene st) plane_normal hit_loc hit_normal"
    using h by (simp add: hit_check_def)
  have eq: "execute_build host st ray_origin ray_vector
      = paint_existing_face host st (tile_selection grd) up_vector right_vector hit_loc face_index"
    using g assms hc by (simp add: execute_build_def)
  with h have "paint_existing_face host st (tile_selection grd) up_vector right_vector
      hit_loc face_index = Inr st1" by simp
  from paint_existing_face_Inr [OF this] g eq
  show "verts (bmesh st1) = verts (bmesh st) \<and> faces (bmesh st1) = faces (bmesh st) \<and>
        tree st1 = tree st \<and>
        virtual_cursor st1 = add_virtual_cursor (virtual_cursor st) hit_loc \<and>
        (\<exists>grd r. py_index (sprytile_grids (scene st)) (sprytile_gridid (obj st)) = Inr grd \<and>
           execute_build host st ray_origin ray_vector
             = paint_existing_face host st (tile_selection grd) up_vector right_vector
                 hit_loc face_index \<and>
           uv_map_face host (scene st) (obj st) up_vector right_vector (tile_selection grd)
             face_index (bmesh st) = Inr (bmesh st1, r))"
    by auto
next
  assume "hit_normal = - plane_normal"
  then have "\<not> hit_check (scene st) plane_normal hit_loc hit_normal"
    by (simp add: hit_check_opposite)
  then show "execute_build host st ray_origin ray_vector =
      (case py_index (sprytile_grids (scene st)) (sprytile_gridid (obj st)) of
         Inl e \<Rightarrow> Inl e
       | Inr grd \<Rightarrow>
           build_on_grid host st (tile_selection grd) up_vector right_vector
             plane_normal ray_origin ray_vector)"
    using assms by (simp add: execute_build_def split: sum.splits)
qed

theorem execute_build_paints_facing_hit_witness:
  "raycast_object (tree (ex_hit_state (Vector 0 0 1))) (obj (ex_hit_state (Vector 0 0 1)))
      (Vector 1 1 1) (Vector 0 0 (- 1)) = Inr (Some (Vector 1 1 0, Vector 0 0 1, 0, 1)) \<and>
   get_current_grid_vectors (scene (ex_hit_state (Vector 0 0 1)))
     = (Vector 0 1 0, Vector 1 0 0, Vector 0 0 1) \<and>
   \<bar>dot (Vector 0 0 1) (Vector 0 0 1) - 1\<bar> < 0.05 \<and>
   distance_point_to_plane (Vector 1 1 0) (cursor_location (scene (ex_hit_state (Vector 0 0 1))))
     (Vector 0 0 1) = Some 0 \<and>
   execute_build ex_host (ex_hit_state (Vector 0 0 1)) (Vector 1 1 1) (Vector 0 0 (- 1))
     = Inr (projr (execute_build ex_host (ex_hit_state (Vector 0 0 1)) (Vector 1 1 1)
                     (Vector 0 0 (- 1)))) \<and>
   verts (bmesh (projr (execute_build ex_host (ex_hit_state (Vector 0 0 1)) (Vector 1 1 1)
                          (Vector 0 0 (- 1))))) = verts ex_mesh \<and>
   faces (bmesh (projr (execute_build ex_host (ex_hit_state (Vector 0 0 1)) (Vector 1 1 1)
                          (Vector 0 0 (- 1))))) = faces ex_mesh \<and>
   virtual_cursor (projr (execute_build ex_host (ex_hit_state (Vector 0 0 1)) (Vector 1 1 1)
                            (Vector 0 0 (- 1)))) = [Vector 1 1 0] \<and>
   raycast_object (tree (ex_hit_state (Vector 0 0 (- 1)))) (obj (ex_hit_state (Vector 0 0 (- 1))))
      (Vector 1 1 1) (Vector 0 0 (- 1)) = Inr (Some (Vector 1 1 0, Vector 0 0 (- 1), 0, 1)) \<and>
   Vector 0 0 (- 1) = - Vector 0 0 1 \<and>
   execute_build ex_host (ex_hit_state (Vector 0 0 (- 1))) (Vector 1 1 1) (Vector 0 0 (- 1))
     = build_on_grid ex_host (ex_hit_state (Vector 0 0 (- 1))) (2, 1) (Vector 0 1 0)
         (Vector 1 0 0) (Vector 0 0 1) (Vector 1 1 1) (Vector 0 0 (- 1))"
proof -
  let ?st = "ex_hit_state (Vector 0 0 1)"
  let ?r = "execute_build ex_host ?st (Vector 1 1 1) (Vector 0 0 (- 1))"
  let ?ot = "ex_hit_state (Vector 0 0 (- 1))"
  have h1: "raycast_object (tree ?st) (obj ?st) (Vector 1 1 1) (Vector 0 0 (- 1))
      = Inr (Some (Vector 1 1 0, Vector 0 0 1, 0, 1))"
    by (simp add: raycast_object_def ex_hit_state_def ex_defs)
  have h2: "get_current_grid_vectors (scene ?st) = (Vector 0 1 0, Vector 1 0 0, Vector 0 0 1)"
    by (simp add: get_current_grid_vectors_def ex_hit_state_def ex_defs vec_defs)
  have h3: "\<bar>dot (Vector 0 0 1) (Vector 0 0 1) - 1\<bar> < 0.05"
    by (simp add: dot_def)
  have h4: "distance_point_to_plane (Vector 1 1 0) (cursor_location (scene ?st)) (Vector 0 0 1)
      = Some 0"
    by (simp add: distance_point_to_plane_def ex_hit_state_def ex_defs vec_defs)
  have h5: "\<bar>0::real\<bar> < 0.05" by simp
  have h6: "?r = Inr (projr ?r)"
    by (simp add: ex_build_facing)
  have vc: "add_virtual_cursor (virtual_cursor ?st) (Vector 1 1 0) = [Vector 1 1 0]"
    by (simp add: add_virtual_cursor_def deque_append_def ex_hit_state_def ex_defs)
  have vm: "verts (bmesh ?st) = verts ex_mesh" "faces (bmesh ?st) = faces ex_mesh"
    by (simp_all add: ex_hit_state_def ex_state_def)
  have o1: "raycast_object (tree ?ot) (obj ?ot) (Vector 1 1 1) (Vector 0 0 (- 1))
      = Inr (Some (Vector 1 1 0, Vector 0 0 (- 1), 0, 1))"
    by (simp add: raycast_object_def ex_hit_state_def ex_defs)
  have o2: "get_current_grid_vectors (scene ?ot) = (Vector 0 1 0, Vector 1 0 0, Vector 0 0 1)"
    by (simp add: get_current_grid_vectors_def ex_hit_state_def ex_defs vec_defs)
  have o3: "Vector 0 0 (- 1) = - Vector 0 0 1"
    by (simp add: uminus_Vector_def)
  have o4: "py_index (sprytile_grids (scene ?ot)) (sprytile_gridid (obj ?ot)) = Inr ex_grid"
    "tile_selection ex_grid = (2, 1)"
    by (simp_all add: py_index_def ex_hit_state_def ex_defs)
  have facing: "verts (bmesh (projr ?r)) = verts (bmesh ?st) \<and>
      faces (bmesh (projr ?r)) = faces (bmesh ?st) \<and>
      virtual_cursor (projr ?r) = add_virtual_cursor (virtual_cursor ?st) (Vector 1 1 0)"
    using execute_build_paints_facing_hit [OF h1 h2, of 0 ex_host "projr ?r"] h3 h4 h5 h6
    by blast
  have opposite: "execute_build ex_host ?ot (Vector 1 1 1) (Vector 0 0 (- 1))
      = build_on_grid ex_host ?ot (2, 1) (Vector 0 1 0) (Vector 1 0 0) (Vector 0 0 1)
          (Vector 1 1 1) (Vector 0 0 (- 1))"
    using execute_build_paints_facing_hit [OF o1 o2, of 0 ex_host ?ot] o3 o4
    by simp
  show ?thesis
    using h1 h2 h3 h4 h6 facing vc vm o1 o3 opposite by simp
qed

text \<open>
  Claim C1 as stated fails: for a hit of face 0 at \<open>(1, 1, 0)\<close>, on the reference plane, with
  the normal \<open>(0, 0, -1)\<close> opposite to the plane normal \<open>(0, 0, 1)\<close>, \<open>execute_build\<close>
  appends four vertices and a second face.
\<close>

theorem execute_build_opposite_normal_counterexample:
  "raycast_object (tree (ex_hit_state (Vector 0 0 (- 1)))) (obj (ex_hit_state (Vector 0 0 (- 1))))
      (Vector 1 1 1) (Vector 0 0 (- 1)) = Inr (Some (Vector 1 1 0, Vector 0 0 (- 1), 0, 1)) \<and>
   get_current_grid_vectors (scene (ex_hit_state (Vector 0 0 (- 1))))
     = (Vector 0 1 0, Vector 1 0 0, Vector 0 0 1) \<and>
   Vector 0 0 (- 1) = - Vector 0 0 1 \<and>
   dot (Vector 0 0 1) (Vector 0 0 (- 1)) = - 1 \<and>
   distance_point_to_plane (Vector 1 1 0)
     (cursor_location (scene (ex_hit_state (Vector 0 0 (- 1))))) (Vector 0 0 1) = Some 0 \<and>
   isl (execute_build ex_host (ex_hit_state (Vector 0 0 (- 1))) (Vector 1 1 1) (Vector 0 0 (- 1)))
     = False \<and>
   faces (bmesh (projr (execute_build ex_host (ex_hit_state (Vector 0 0 (- 1))) (Vector 1 1 1)
                          (Vector 0 0 (- 1))))) = [[0, 1, 2, 3], [4, 7, 6, 5]] \<and>
   verts (bmesh (projr (execute_build ex_host (ex_hit_state (Vector 0 0 (- 1))) (Vector 1 1 1)
                          (Vector 0 0 (- 1)))))
     = verts ex_mesh @ [Vector 1 1 0, Vector 1 2 0, Vector 2 2 0, Vector 2 1 0]"
  by (simp add: build_defs ex_hit_state_def ex_defs vec_defs Let_def enumerate_eq_zip
      eval_nat_numeral)

end
